theory Spec2Isabelle
  imports Main "HOL-Library.Word" "HOL-Library.Signed_Division"
begin

unbundle bit_operations_syntax

chapter \<open>Loongson-3 platform glue: LS7A host bridge and boot-information builder\<close>

text \<open>
  A shallow embedding of \<^verbatim>\<open>hw/pci-host/ls7a.c\<close> and \<^verbatim>\<open>hw/mips/mips_loongson3.c\<close>.
  C integers are words of their width (\<^verbatim>\<open>hwaddr\<close>, \<^verbatim>\<open>uint64_t\<close>, \<^verbatim>\<open>unsigned long\<close>,
  \<^verbatim>\<open>int64_t\<close> and \<^verbatim>\<open>target_ulong\<close> are 64-bit; \<^verbatim>\<open>int\<close> and \<^verbatim>\<open>uint32_t\<close> are 32-bit),
  structs are records, global variables are fields of an explicit state, \<^verbatim>\<open>exit(1)\<close> is
  a value of a result type.
\<close>

type_synonym u8 = "8 word"
type_synonym u16 = "16 word"
type_synonym u32 = "32 word"
type_synonym u64 = "64 word"
type_synonym hwaddr = "64 word"

section \<open>The LS7A host bridge (\<^verbatim>\<open>hw/pci-host/ls7a.c\<close>)\<close>

subsection \<open>PCI configuration space\<close>

text \<open>
  \<^verbatim>\<open>PCIDevice\<close>: the three byte arrays of the configuration space (\<^verbatim>\<open>config\<close>, its
  write mask \<^verbatim>\<open>wmask\<close> and its compare mask \<^verbatim>\<open>cmask\<close>), each of
  \<^verbatim>\<open>PCI_CONFIG_SPACE_SIZE\<close> = 256 bytes for a conventional PCI device, and the
  \<^verbatim>\<open>int32_t devfn\<close>.
\<close>

record PCIDevice =
  config :: "u8 list"
  wmask :: "u8 list"
  cmask :: "u8 list"
  devfn :: int

definition PCI_CONFIG_SPACE_SIZE :: nat where
  "PCI_CONFIG_SPACE_SIZE = 256"

text \<open>
  The register offsets of the PCI standard, which the source names through
  \<^verbatim>\<open>hw/pci/pci.h\<close>: the six base-address registers at 0x10 + 4n, the CardBus CIS
  pointer at 0x28 and the interrupt-pin byte at 0x3d.
\<close>

definition PCI_BASE_ADDRESS_0 :: nat where "PCI_BASE_ADDRESS_0 = 0x10"
definition PCI_BASE_ADDRESS_1 :: nat where "PCI_BASE_ADDRESS_1 = 0x14"
definition PCI_BASE_ADDRESS_2 :: nat where "PCI_BASE_ADDRESS_2 = 0x18"
definition PCI_BASE_ADDRESS_3 :: nat where "PCI_BASE_ADDRESS_3 = 0x1c"
definition PCI_BASE_ADDRESS_4 :: nat where "PCI_BASE_ADDRESS_4 = 0x20"
definition PCI_BASE_ADDRESS_5 :: nat where "PCI_BASE_ADDRESS_5 = 0x24"
definition PCI_CARDBUS_CIS :: nat where "PCI_CARDBUS_CIS = 0x28"
definition PCI_INTERRUPT_PIN :: nat where "PCI_INTERRUPT_PIN = 0x3d"

text \<open>
  The accessors of \<^verbatim>\<open>hw/pci/pci.h\<close>: a byte, a little-endian 16-bit word and a
  little-endian 32-bit word at a byte offset of one of the arrays.
\<close>

definition pci_set_byte :: "u8 list \<Rightarrow> nat \<Rightarrow> u8 \<Rightarrow> u8 list" where
  "pci_set_byte c off v = c[off := v]"

definition pci_set_word :: "u8 list \<Rightarrow> nat \<Rightarrow> u16 \<Rightarrow> u8 list" where
  "pci_set_word c off v = c[off := ucast v, off + 1 := ucast (drop_bit 8 v)]"

definition pci_set_long :: "u8 list \<Rightarrow> nat \<Rightarrow> u32 \<Rightarrow> u8 list" where
  "pci_set_long c off v =
     c[off := ucast v, off + 1 := ucast (drop_bit 8 v),
       off + 2 := ucast (drop_bit 16 v), off + 3 := ucast (drop_bit 24 v)]"

definition pci_get_byte :: "u8 list \<Rightarrow> nat \<Rightarrow> u8" where
  "pci_get_byte c off = c ! off"

definition pci_get_word :: "u8 list \<Rightarrow> nat \<Rightarrow> u16" where
  "pci_get_word c off = ucast (c ! off) OR push_bit 8 (ucast (c ! (off + 1)))"

definition pci_get_long :: "u8 list \<Rightarrow> nat \<Rightarrow> u32" where
  "pci_get_long c off =
     ucast (c ! off) OR push_bit 8 (ucast (c ! (off + 1)))
       OR push_bit 16 (ucast (c ! (off + 2))) OR push_bit 24 (ucast (c ! (off + 3)))"

subsection \<open>The reset image\<close>

text \<open>
  \<^verbatim>\<open>ls7a_reset\<close>, statement by statement. The \<^verbatim>\<open>uint64_t wmask\<close> is \<^verbatim>\<open>~(-1)\<close>, the
  complement of the \<^verbatim>\<open>int\<close> -1, converted to 64 bits.
\<close>

definition ls7a_wmask :: u64 where
  "ls7a_wmask = scast (NOT (- 1 :: u32))"

definition ls7a_reset_config :: "u8 list \<Rightarrow> u8 list" where
  "ls7a_reset_config c0 =
    (let c = pci_set_word c0 0x0 0x0014;
         c = pci_set_word c 0x2 0x7a00;
         c = pci_set_word c 0x4 0x0000;
         c = pci_set_word c 0x6 0x0010;
         c = pci_set_byte c 0x8 0x00;
         c = pci_set_byte c 0x9 0x00;
         c = pci_set_byte c 0xa 0x00;
         c = pci_set_byte c 0xb 0x06;
         c = pci_set_byte c 0xc 0x00;
         c = pci_set_byte c 0xe 0x80;
         c = pci_set_long c PCI_BASE_ADDRESS_0 0x0;
         c = pci_set_long c PCI_BASE_ADDRESS_1 0x0;
         c = pci_set_long c PCI_BASE_ADDRESS_2 0x0;
         c = pci_set_long c PCI_BASE_ADDRESS_3 0x00000004;
         c = pci_set_long c PCI_BASE_ADDRESS_4 0x0;
         c = pci_set_long c PCI_BASE_ADDRESS_5 0x0;
         c = pci_set_word c PCI_CARDBUS_CIS 0x0000;
         c = pci_set_word c 0x2c 0x0014;
         c = pci_set_word c 0x2e 0x7a00;
         c = pci_set_byte c 0x34 0x40;
         c = pci_set_byte c 0x3c 0x00;
         c = pci_set_byte c 0x3d 0x00;
         c = pci_set_word c 0x3e 0x0000;
         c = pci_set_byte c 0x4c 0x60
     in c)"

definition ls7a_reset_wmask :: "u8 list \<Rightarrow> u8 list" where
  "ls7a_reset_wmask w0 =
    (let m = ls7a_wmask;
         w = pci_set_word w0 0x0 (ucast (m AND 0xffff));
         w = pci_set_word w 0x2 (ucast (m AND 0xffff));
         w = pci_set_word w 0x6 (ucast (m AND 0xffff));
         w = pci_set_byte w 0x8 (ucast (m AND 0xff));
         w = pci_set_byte w 0x9 (ucast (m AND 0xff));
         w = pci_set_byte w 0xa (ucast (m AND 0xff));
         w = pci_set_byte w 0xb (ucast (m AND 0xff));
         w = pci_set_byte w 0xc (ucast (m AND 0xff));
         w = pci_set_byte w 0xe (ucast (m AND 0xff));
         w = pci_set_long w PCI_BASE_ADDRESS_0 (ucast (m AND 0xffffffff));
         w = pci_set_long w PCI_BASE_ADDRESS_1 (ucast (m AND 0xffffffff));
         w = pci_set_long w PCI_BASE_ADDRESS_2 (ucast (m AND 0xffffffff));
         w = pci_set_long w PCI_BASE_ADDRESS_3 (ucast (m AND 0xffffffff));
         w = pci_set_long w PCI_BASE_ADDRESS_4 (ucast (m AND 0xffffffff));
         w = pci_set_long w PCI_BASE_ADDRESS_5 (ucast (m AND 0xffffffff));
         w = pci_set_word w 0x2c (ucast (m AND 0xffff));
         w = pci_set_word w 0x2e (ucast (m AND 0xffff));
         w = pci_set_byte w 0x34 (ucast (m AND 0xff));
         w = pci_set_byte w 0x3d (ucast (m AND 0xff));
         w = pci_set_byte w 0x4c (ucast (m AND 0xff))
     in w)"

definition ls7a_reset_cmask :: "u8 list \<Rightarrow> u8 list" where
  "ls7a_reset_cmask k0 =
    (let k = pci_set_word k0 0x0 0xffff;
         k = pci_set_word k 0x2 0xffff;
         k = pci_set_word k 0x6 0xffff;
         k = pci_set_byte k 0x8 0xff;
         k = pci_set_byte k 0x9 0xff;
         k = pci_set_byte k 0xa 0xff;
         k = pci_set_byte k 0xb 0xff;
         k = pci_set_byte k 0xc 0xff;
         k = pci_set_byte k 0xe 0xff;
         k = pci_set_long k PCI_BASE_ADDRESS_0 0xffffffff;
         k = pci_set_long k PCI_BASE_ADDRESS_1 0xffffffff;
         k = pci_set_long k PCI_BASE_ADDRESS_2 0xffffffff;
         k = pci_set_long k PCI_BASE_ADDRESS_3 0xffffffff;
         k = pci_set_long k PCI_BASE_ADDRESS_4 0xffffffff;
         k = pci_set_long k PCI_BASE_ADDRESS_5 0xffffffff;
         k = pci_set_word k 0x2c 0xffff;
         k = pci_set_word k 0x2e 0xffff;
         k = pci_set_byte k 0x34 0xff
     in k)"

text \<open>
  The three arrays are distinct, so the interleaved stores of the source are the three
  sequences above, each in the source's order.
\<close>

definition ls7a_reset :: "'a PCIDevice_scheme \<Rightarrow> 'a PCIDevice_scheme" where
  "ls7a_reset dev =
     dev\<lparr>config := ls7a_reset_config (config dev),
         wmask := ls7a_reset_wmask (wmask dev),
         cmask := ls7a_reset_cmask (cmask dev)\<rparr>"

subsection \<open>The interrupt router\<close>

definition virq :: "int list" where
  "virq = [3, 4, 5, 6, 7, 9, 10, 11]"

text \<open>
  \<^verbatim>\<open>pci_ls7a_map_irq\<close>. \<^verbatim>\<open>devfn >> 3\<close> is the arithmetic shift of an \<^verbatim>\<open>int\<close>, the pin
  byte is widened to \<^verbatim>\<open>int\<close>, and \<^verbatim>\<open>%\<close> is C's remainder, which truncates towards
  zero. An index outside the eight-entry table has no defined result: \<open>None\<close>.
\<close>

definition pci_ls7a_map_irq :: "'a PCIDevice_scheme \<Rightarrow> int option" where
  "pci_ls7a_map_irq d =
    (let slot = drop_bit 3 (devfn d);
         pin = uint (config d ! PCI_INTERRUPT_PIN);
         i = (pin + slot) smod 8
     in if 0 \<le> i \<and> i < int (length virq) then Some (virq ! nat i) else None)"

subsection \<open>The extended configuration window\<close>

text \<open>
  \<^verbatim>\<open>ls7a_pci_config_read\<close> and \<^verbatim>\<open>ls7a_pci_config_write\<close>. The primitives of the PCI
  bus, \<^verbatim>\<open>pci_data_read\<close> and \<^verbatim>\<open>pci_data_write\<close>, are parameters: they take the bus
  (the opaque pointer), a 32-bit address, a length, and for the write a 32-bit value;
  the read returns a 32-bit value. The conversions at the calls are C's implicit ones.
\<close>

definition ls7a_pci_config_read ::
  "('bus \<Rightarrow> u32 \<Rightarrow> u32 \<Rightarrow> u32) \<Rightarrow> 'bus \<Rightarrow> hwaddr \<Rightarrow> u32 \<Rightarrow> u64" where
  "ls7a_pci_config_read pci_data_read opaque addr sz =
    (let tmp_addr = (if addr AND 0x1000000 \<noteq> 0 then addr AND 0xffff
                     else addr AND 0xffffff);
         val = ucast (pci_data_read opaque (ucast tmp_addr) sz)
     in val)"

definition ls7a_pci_config_write ::
  "('bus \<Rightarrow> u32 \<Rightarrow> u32 \<Rightarrow> u32 \<Rightarrow> 'bus) \<Rightarrow> 'bus \<Rightarrow> hwaddr \<Rightarrow> u64 \<Rightarrow> u32 \<Rightarrow> 'bus" where
  "ls7a_pci_config_write pci_data_write opaque addr val sz =
    (let tmp_addr = (if addr AND 0x1000000 \<noteq> 0 then addr AND 0xffff
                     else addr AND 0xffffff)
     in pci_data_write opaque (ucast tmp_addr) (ucast val) sz)"

section \<open>The power-management trap (\<^verbatim>\<open>hw/mips/mips_loongson3.c\<close>)\<close>

datatype ShutdownCause = SHUTDOWN_CAUSE_GUEST_RESET | SHUTDOWN_CAUSE_GUEST_SHUTDOWN

text \<open>
  The system lifecycle signal: the requests made so far through
  \<^verbatim>\<open>qemu_system_reset_request\<close> and \<^verbatim>\<open>qemu_system_shutdown_request\<close>, latest last.
\<close>

record lifecycle =
  reset_requests :: "ShutdownCause list"
  shutdown_requests :: "ShutdownCause list"

definition qemu_system_reset_request :: "ShutdownCause \<Rightarrow> lifecycle \<Rightarrow> lifecycle" where
  "qemu_system_reset_request cause l = l\<lparr>reset_requests := reset_requests l @ [cause]\<rparr>"

definition qemu_system_shutdown_request :: "ShutdownCause \<Rightarrow> lifecycle \<Rightarrow> lifecycle" where
  "qemu_system_shutdown_request cause l =
     l\<lparr>shutdown_requests := shutdown_requests l @ [cause]\<rparr>"

definition PM_CNTL_MODE :: hwaddr where
  "PM_CNTL_MODE = 0x10"

definition PM_MMIO_SIZE :: hwaddr where
  "PM_MMIO_SIZE = 0x100"

definition loongson3_pm_read :: "lifecycle \<Rightarrow> hwaddr \<Rightarrow> u32 \<Rightarrow> u64" where
  "loongson3_pm_read l addr sz = 0"

definition loongson3_pm_write :: "lifecycle \<Rightarrow> hwaddr \<Rightarrow> u64 \<Rightarrow> u32 \<Rightarrow> lifecycle" where
  "loongson3_pm_write l addr val sz =
    (if addr \<noteq> PM_CNTL_MODE then l
     else if val = 0x00 then qemu_system_reset_request SHUTDOWN_CAUSE_GUEST_RESET l
     else if val = 0xff then qemu_system_shutdown_request SHUTDOWN_CAUSE_GUEST_SHUTDOWN l
     else l)"

section \<open>The boot-information tables (\<^verbatim>\<open>hw/mips/mips_loongson3.c\<close>)\<close>

subsection \<open>Constants and globals\<close>

definition INITRD_OFFSET :: u64 where "INITRD_OFFSET = 0x03ea0000"
definition BOOTPARAM_ADDR :: u32 where "BOOTPARAM_ADDR = 0x8ff00000"
definition BOOTPARAM_PHYADDR :: u64 where "BOOTPARAM_PHYADDR = 0x0ff00000"
definition FW_CONF_ADDR :: u64 where "FW_CONF_ADDR = 0x0fff0000"
definition BIOS_SIZE :: int where "BIOS_SIZE = 2 * 1048576"
definition LOONGSON3_BIOSNAME :: string where "LOONGSON3_BIOSNAME = ''bios_loongson3.bin''"
definition VIRT_PCI_MEM_BASE :: u64 where "VIRT_PCI_MEM_BASE = 0x40000000"
definition VIRT_PCI_MEM_SIZE :: u64 where "VIRT_PCI_MEM_SIZE = 0x40000000"
definition VIRT_PCI_IO_BASE :: u64 where "VIRT_PCI_IO_BASE = 0x18000000"

text \<open>
  \<^verbatim>\<open>#define align(x) (((x) + 63) & ~63)\<close>, applied to a \<^verbatim>\<open>sizeof\<close>: the \<^verbatim>\<open>int\<close> mask -64
  is converted to the 64-bit \<^verbatim>\<open>size_t\<close>.
\<close>

definition align :: "u64 \<Rightarrow> u64" where
  "align x = (x + 63) AND NOT 63"

text \<open>The global \<^verbatim>\<open>loaderparams\<close>; a \<^verbatim>\<open>NULL\<close> file name is \<open>None\<close>.\<close>

record loaderparams_t =
  ram_size :: u64
  kernel_cmdline :: string
  kernel_filename :: "string option"
  initrd_filename :: "string option"
  kernel_entry :: u64
  a0 :: u64
  a1 :: u64
  a2 :: u64

record fw_config_t =
  fw_ram_size :: u64
  fw_mem_freq :: u32
  fw_nr_cpus :: u32
  fw_cpu_clock_freq :: u32

subsection \<open>The records of the chain\<close>

text \<open>
  The structs the builders fill. Members that occur in several structs carry the
  struct's initial as a prefix (\<^verbatim>\<open>vers\<close>, \<^verbatim>\<open>node_id\<close>); the arrays and strings that no
  builder writes (sensors, resources, the EC and TCM names) are left out. The buffer
  comes from \<^verbatim>\<open>g_malloc0\<close>, so every struct starts as zeroes.
\<close>

record mem_map =
  node_id :: u32
  mem_type :: u32
  mem_start :: u64
  mem_size :: u32

record efi_memory_map_loongson =
  m_vers :: u16
  nr_map :: u32
  mem_freq :: u32
  mmap :: "mem_map list"

definition zero_mem_map :: mem_map where
  "zero_mem_map = \<lparr>node_id = 0, mem_type = 0, mem_start = 0, mem_size = 0\<rparr>"

definition zero_efi_memory_map_loongson :: efi_memory_map_loongson where
  "zero_efi_memory_map_loongson =
     \<lparr>m_vers = 0, nr_map = 0, mem_freq = 0, mmap = replicate 128 zero_mem_map\<rparr>"

definition Loongson_3A :: u32 where "Loongson_3A = 0x300"

record efi_cpuinfo_loongson =
  c_vers :: u16
  processor_id :: u32
  cputype :: u32
  total_node :: u32
  cpu_startup_core_id :: u16
  reserved_cores_mask :: u16
  cpu_clock_freq :: u32
  nr_cpus :: u32
  cpuname :: string

definition zero_efi_cpuinfo_loongson :: efi_cpuinfo_loongson where
  "zero_efi_cpuinfo_loongson =
     \<lparr>c_vers = 0, processor_id = 0, cputype = 0, total_node = 0, cpu_startup_core_id = 0,
      reserved_cores_mask = 0, cpu_clock_freq = 0, nr_cpus = 0, cpuname = []\<rparr>"

record uart_device =
  iotype :: u32
  uartclk :: u32
  int_offset :: u32
  uart_base :: u64

definition zero_uart_device :: uart_device where
  "zero_uart_device = \<lparr>iotype = 0, uartclk = 0, int_offset = 0, uart_base = 0\<rparr>"

record system_loongson =
  s_vers :: u16
  ccnuma_smp :: u32
  sing_double_channel :: u32
  nr_uarts :: u32
  uarts :: "uart_device list"
  nr_sensors :: u32

definition zero_system_loongson :: system_loongson where
  "zero_system_loongson =
     \<lparr>s_vers = 0, ccnuma_smp = 0, sing_double_channel = 0, nr_uarts = 0,
      uarts = replicate 64 zero_uart_device, nr_sensors = 0\<rparr>"

record irq_source_routing_table =
  i_vers :: u16
  i_size :: u16
  rtr_bus :: u16
  rtr_devfn :: u16
  vendor :: u32
  device :: u32
  PIC_type :: u32
  ht_int_bit :: u64
  ht_enable :: u64
  i_node_id :: u32
  pci_mem_start_addr :: u64
  pci_mem_end_addr :: u64
  pci_io_start_addr :: u64
  pci_io_end_addr :: u64
  pci_config_addr :: u64
  dma_mask_bits :: u16
  dma_noncoherent :: u16

definition zero_irq_source_routing_table :: irq_source_routing_table where
  "zero_irq_source_routing_table =
     \<lparr>i_vers = 0, i_size = 0, rtr_bus = 0, rtr_devfn = 0, vendor = 0, device = 0,
      PIC_type = 0, ht_int_bit = 0, ht_enable = 0, i_node_id = 0, pci_mem_start_addr = 0,
      pci_mem_end_addr = 0, pci_io_start_addr = 0, pci_io_end_addr = 0,
      pci_config_addr = 0, dma_mask_bits = 0, dma_noncoherent = 0\<rparr>"

record interface_info =
  f_vers :: u16
  f_size :: u16
  flag :: u8
  description :: string

definition zero_interface_info :: interface_info where
  "zero_interface_info = \<lparr>f_vers = 0, f_size = 0, flag = 0, description = []\<rparr>"

record board_devices =
  name :: string
  num_resources :: u32

definition zero_board_devices :: board_devices where
  "zero_board_devices = \<lparr>name = [], num_resources = 0\<rparr>"

record loongson_special_attribute =
  a_vers :: u16
  special_name :: string
  loongson_special_type :: u32

definition zero_loongson_special_attribute :: loongson_special_attribute where
  "zero_loongson_special_attribute =
     \<lparr>a_vers = 0, special_name = [], loongson_special_type = 0\<rparr>"

record loongson_params =
  memory_offset :: u64
  cpu_offset :: u64
  system_offset :: u64
  irq_offset :: u64
  interface_offset :: u64
  special_offset :: u64
  boarddev_table_offset :: u64

record smbios_tables =
  sm_vers :: u16
  vga_bios :: u64
  lp :: loongson_params

record efi_reset_system_t =
  ResetCold :: u64
  ResetWarm :: u64
  ResetType :: u64
  Shutdown :: u64
  DoSuspend :: u64

record efi_loongson =
  mps :: u64
  acpi :: u64
  acpi20 :: u64
  smbios :: smbios_tables
  sal_systab :: u64
  boot_info :: u64

record boot_params =
  efi :: efi_loongson
  reset_system :: efi_reset_system_t

definition zero_boot_params :: boot_params where
  "zero_boot_params =
     \<lparr>efi = \<lparr>mps = 0, acpi = 0, acpi20 = 0,
              smbios = \<lparr>sm_vers = 0, vga_bios = 0,
                        lp = \<lparr>memory_offset = 0, cpu_offset = 0, system_offset = 0,
                              irq_offset = 0, interface_offset = 0, special_offset = 0,
                              boarddev_table_offset = 0\<rparr>\<rparr>,
              sal_systab = 0, boot_info = 0\<rparr>,
      reset_system = \<lparr>ResetCold = 0, ResetWarm = 0, ResetType = 0, Shutdown = 0,
                       DoSuspend = 0\<rparr>\<rparr>"

datatype boot_record =
    MemoryMap efi_memory_map_loongson
  | CpuInfo efi_cpuinfo_loongson
  | SystemInfo system_loongson
  | IrqSource irq_source_routing_table
  | InterfaceInfo interface_info
  | BoardDevices board_devices
  | SpecialAttribute loongson_special_attribute

text \<open>
  What the compiler fixes and the source only names: the \<^verbatim>\<open>sizeof\<close> of each struct and
  the offset of \<^verbatim>\<open>efi.smbios.lp\<close> inside \<^verbatim>\<open>struct boot_params\<close>. They are parameters of
  the model. \<open>lp64_abi\<close> gives the values for the declarations of the source on an LP64
  host with GCC's layout of packed structs.
\<close>

record abi =
  sizeof_efi_memory_map_loongson :: u64
  sizeof_efi_cpuinfo_loongson :: u64
  sizeof_system_loongson :: u64
  sizeof_irq_source_routing_table :: u64
  sizeof_interface_info :: u64
  sizeof_board_devices :: u64
  sizeof_loongson_special_attribute :: u64
  sizeof_boot_params :: u64
  offsetof_lp :: u64
  sizeof_bios_boot_code :: u64
  sizeof_fw_config :: u64

definition lp64_abi :: abi where
  "lp64_abi =
     \<lparr>sizeof_efi_memory_map_loongson = 3082, sizeof_efi_cpuinfo_loongson = 90,
      sizeof_system_loongson = 9076, sizeof_irq_source_routing_table = 84,
      sizeof_interface_info = 69, sizeof_board_devices = 11336,
      sizeof_loongson_special_attribute = 11336, sizeof_boot_params = 152,
      offsetof_lp = 40, sizeof_bios_boot_code = 220, sizeof_fw_config = 24\<rparr>"

subsection \<open>The memory map\<close>

text \<open>
  \<^verbatim>\<open>init_memory_map\<close>. Both size expressions are computed in \<^verbatim>\<open>unsigned long\<close> (the
  type of \<^verbatim>\<open>loaderparams.ram_size\<close>) and then stored in a \<^verbatim>\<open>uint32_t\<close>.
\<close>

definition init_memory_map :: "loaderparams_t \<Rightarrow> efi_memory_map_loongson \<Rightarrow> efi_memory_map_loongson" where
  "init_memory_map lparams emap =
     emap\<lparr>nr_map := 2, mem_freq := 300000000,
          mmap := (mmap emap)
            [0 := (mmap emap ! 0)\<lparr>node_id := 0, mem_type := 1, mem_start := 0x0,
                    mem_size := ucast ((if ram_size lparams > 0x10000000 then 256
                                        else drop_bit 20 (ram_size lparams)) - 16)\<rparr>,
             1 := (mmap emap ! 1)\<lparr>node_id := 0, mem_type := 2, mem_start := 0x90000000,
                    mem_size := ucast (if ram_size lparams > 0x10000000
                                       then drop_bit 20 (ram_size lparams) - 256 else 0)\<rparr>]\<rparr>"

subsection \<open>The host's processor frequency\<close>

text \<open>
  What the host gives \<^verbatim>\<open>get_host_cpu_freq\<close>: \<^verbatim>\<open>/proc/cpuinfo\<close> cannot be opened, the
  read fails, or the read returns bytes (at most the 1024 asked for).
\<close>

datatype host_file = OpenFails | ReadFails | ReadBytes string

text \<open>\<^verbatim>\<open>strstr\<close>: the index of the first occurrence, \<open>None\<close> for \<^verbatim>\<open>NULL\<close>.\<close>

fun strstr :: "string \<Rightarrow> string \<Rightarrow> nat option" where
  "strstr [] needle = (if needle = [] then Some 0 else None)"
| "strstr (c # cs) needle =
     (if take (length needle) (c # cs) = needle then Some 0
      else map_option Suc (strstr cs needle))"

definition isdigit :: "char \<Rightarrow> bool" where
  "isdigit c = (48 \<le> (of_char c :: nat) \<and> (of_char c :: nat) \<le> 57)"

text \<open>
  \<^verbatim>\<open>atoi\<close> of a string of digits, as the C library computes it: \<^verbatim>\<open>strtol\<close>, which stops
  at \<^verbatim>\<open>LONG_MAX\<close>, and then the conversion of the \<^verbatim>\<open>long\<close> to \<^verbatim>\<open>int\<close>. The result is the
  bit pattern of the \<^verbatim>\<open>int\<close>.
\<close>

definition atoi :: "string \<Rightarrow> u32" where
  "atoi ds =
     word_of_nat (min (foldl (\<lambda>n c. 10 * n + (of_char c - 48)) 0 ds)
                      9223372036854775807)"

text \<open>
  The automatic array \<^verbatim>\<open>char buf[1024]\<close> after the read: the bytes read, then bytes
  that were never written, whose value is indeterminate (\<open>None\<close>).
\<close>

definition read_buf :: "string \<Rightarrow> char option list" where
  "read_buf bytes =
     map Some (take 1024 bytes) @ replicate (1024 - length (take 1024 bytes)) None"

definition known_digit :: "char option \<Rightarrow> bool" where
  "known_digit b = (case b of None \<Rightarrow> False | Some c \<Rightarrow> isdigit c)"

text \<open>
  \<^verbatim>\<open>get_host_cpu_freq\<close>; the value is the bit pattern of the \<^verbatim>\<open>int\<close> returned, and the
  \<^verbatim>\<open>int\<close> products wrap around. The result is \<open>None\<close> where the bytes read do not
  determine what the function does: \<^verbatim>\<open>strstr\<close> finds no \<^verbatim>\<open>"model name"\<close> in the string
  that the bytes read hold (the code never terminates the buffer; the \<^verbatim>\<open>NULL\<close> that
  \<^verbatim>\<open>strstr\<close> returns is dereferenced by the loop that follows); the loop finds no
  \<^verbatim>\<open>'@'\<close> in the bytes read; the twelve bytes copied from two past the \<^verbatim>\<open>'@'\<close> do not
  lie in the array; the run of digits ends at an indeterminate byte or at the end of
  the array. After \<^verbatim>\<open>memcpy(buf, buf_p, 12)\<close> the array holds the twelve bytes copied
  and then its old bytes from index 12 on.
\<close>

definition get_host_cpu_freq :: "host_file \<Rightarrow> u32 option" where
  "get_host_cpu_freq f =
    (case f of
       OpenFails \<Rightarrow> Some 0
     | ReadFails \<Rightarrow> Some 0
     | ReadBytes bytes \<Rightarrow>
        (let known = take 1024 bytes;
             buf = read_buf bytes
         in case strstr (takeWhile (\<lambda>c. c \<noteq> CHR 0x00) known) ''model name'' of
           None \<Rightarrow> None
         | Some i \<Rightarrow>
            (let j = i + length (takeWhile (\<lambda>c. c \<noteq> CHR ''@'') (drop i known)) in
             if length known \<le> j then None
             else if 1024 < j + 2 + 12 then None
             else
               (let buf' = take 12 (drop (j + 2) buf) @ drop 12 buf;
                    ds = takeWhile known_digit buf'
                in case drop (length ds) buf' of
                     [] \<Rightarrow> None
                   | None # rest \<Rightarrow> None
                   | Some c # rest \<Rightarrow>
                       Some (atoi (concat (map (\<lambda>b. case b of None \<Rightarrow> []
                                                     | Some d \<Rightarrow> [d]) ds))
                               * 1000 * 1000)))))"

subsection \<open>The other builders\<close>

text \<open>\<^verbatim>\<open>init_cpu_info\<close>; \<^verbatim>\<open>smp.cpus\<close> is an \<^verbatim>\<open>unsigned int\<close>.\<close>

definition init_cpu_info :: "host_file \<Rightarrow> u32 \<Rightarrow> efi_cpuinfo_loongson \<Rightarrow> efi_cpuinfo_loongson option" where
  "init_cpu_info cpuinfo smp_cpus c =
    (case get_host_cpu_freq cpuinfo of
       None \<Rightarrow> None
     | Some freq \<Rightarrow>
        Some (c\<lparr>cputype := Loongson_3A, processor_id := 0x14C000,
                cpu_clock_freq := (if freq = 0 then 400000000 else freq),
                cpu_startup_core_id := 0, nr_cpus := smp_cpus,
                total_node := (smp_cpus + 3) div 4\<rparr>))"

definition init_system_loongson :: "system_loongson \<Rightarrow> system_loongson" where
  "init_system_loongson s =
     s\<lparr>ccnuma_smp := 0, sing_double_channel := 1, nr_uarts := 1,
       uarts := (uarts s)[0 := (uarts s ! 0)\<lparr>iotype := 2, int_offset := 2,
                                  uartclk := 25000000, uart_base := 0x1fe001e0\<rparr>]\<rparr>"

definition init_irq_source :: "irq_source_routing_table \<Rightarrow> irq_source_routing_table" where
  "init_irq_source irq_info =
     irq_info\<lparr>i_node_id := 0, PIC_type := 0, dma_mask_bits := 64,
              pci_mem_start_addr := VIRT_PCI_MEM_BASE,
              pci_mem_end_addr := VIRT_PCI_MEM_BASE + VIRT_PCI_MEM_SIZE - 1,
              pci_io_start_addr := VIRT_PCI_IO_BASE\<rparr>"

definition init_interface_info :: "interface_info \<Rightarrow> interface_info" where
  "init_interface_info interface =
     interface\<lparr>f_vers := 0x01, description := ''UEFI_Version_v1.0''\<rparr>"

definition board_devices_info :: "board_devices \<Rightarrow> board_devices" where
  "board_devices_info bd = bd\<lparr>name := ''Loongson-3A-VIRT-1w-V1.00-demo''\<rparr>"

definition init_special_info :: "loongson_special_attribute \<Rightarrow> loongson_special_attribute" where
  "init_special_info special = special\<lparr>special_name := ''2014-09-11''\<rparr>"

subsection \<open>The state of the platform code\<close>

text \<open>
  The buffer that \<^verbatim>\<open>set_prom_bootparam\<close> hands to \<^verbatim>\<open>rom_add_blob_fixed\<close>: the three
  words stored through \<^verbatim>\<open>parg_env\<close>, the two strings \<^verbatim>\<open>snprintf\<close> wrote, the
  \<^verbatim>\<open>struct boot_params\<close> at offset \<open>bp_at\<close>, and the records of the chain, each with the
  host address it was built at.
\<close>

record params_buf_t =
  parg_env :: "u32 list"
  argv0 :: string
  argv1 :: string
  bp_at :: int
  bp :: boot_params
  records :: "(u64 \<times> boot_record) list"

datatype blob = ParamsBlob params_buf_t | BiosBootCode | FwConfig fw_config_t

text \<open>The calls into the rest of the emulator that create or load something.\<close>

datatype event =
    CpuCreate nat
  | CpuMipsIrqInitCpu nat
  | CpuMipsClockInit nat
  | QemuRegisterReset nat
  | MemoryRegionInit string
  | MemoryRegionAddSubregion string u64
  | LoadElf string
  | LoadImageTargphys string u64 u64
  | RomAddBlobFixed string blob u64 u64
  | FwCfgInit
  | Loongson3IsaInit
  | Loongson3PcieInit
  | SerialMmInit u64

text \<open>
  How the process stops before its function returns: \<^verbatim>\<open>error_report\<close> with the message
  and \<^verbatim>\<open>exit(1)\<close>, or behaviour that C leaves undefined.
\<close>

datatype fatal = Exit string | Undefined

text \<open>
  The globals of the file (\<^verbatim>\<open>loaderparams\<close>, \<^verbatim>\<open>fw_config\<close>, \<^verbatim>\<open>boot_params_p\<close>,
  \<^verbatim>\<open>boot_params_buf\<close>), the records built so far in the current buffer, the process
  environment, and the events so far, latest last.
\<close>

record state =
  loaderparams :: loaderparams_t
  fw_config :: fw_config_t
  boot_params_p :: u64
  boot_params_buf :: u64
  chain :: "(u64 \<times> boot_record) list"
  environ :: "string \<Rightarrow> string option"
  events :: "event list"

text \<open>
  The host and the machine configuration, as far as the code consults them.
  \<open>load_elf\<close> gives the size it returns and the entry, lowest and highest address it
  stores; \<open>initrd_page_bits\<close> is the \<open>k\<close> of \<^verbatim>\<open>INITRD_PAGE_MASK\<close> = \<^verbatim>\<open>~((1 << k) - 1)\<close>, a
  macro of \<^verbatim>\<open>hw/mips/mips.h\<close>.
\<close>

record host =
  cpuinfo :: host_file
  g_malloc0 :: u64
  load_elf :: "string \<Rightarrow> u64 \<times> u64 \<times> u64 \<times> u64"
  load_elf_strerror :: "u64 \<Rightarrow> string"
  get_image_size :: "string \<Rightarrow> u64"
  load_image_targphys :: "string \<Rightarrow> u64 \<Rightarrow> u64 \<Rightarrow> u32"
  qemu_find_file :: "string \<Rightarrow> string option"
  qtest_enabled :: bool
  serial_hd0 :: bool
  initrd_page_bits :: nat
  host_abi :: abi

record MachineState =
  m_ram_size :: u64
  m_kernel_filename :: "string option"
  m_kernel_cmdline :: string
  m_initrd_filename :: "string option"
  smp_cpus :: u32
  bios_name :: "string option"

subsection \<open>The chain\<close>

text \<open>
  \<^verbatim>\<open>init_loongson_params\<close>. Each builder is handed the cursor \<open>p\<close>, fills the struct
  there and returns \<open>p\<close>; the offset stored is that pointer minus the address \<open>lp_addr\<close>
  of the \<^verbatim>\<open>struct loongson_params\<close> itself, both as \<^verbatim>\<open>unsigned long long\<close>. The struct
  \<open>l\<close> is passed in and handed back. If the processor-frequency probe has no defined
  behaviour, the function stops there, after the memory map.
\<close>

definition init_loongson_params :: "host \<Rightarrow> u32 \<Rightarrow> u64 \<Rightarrow> loongson_params \<Rightarrow> state \<Rightarrow> (fatal + loongson_params) \<times> state" where
  "init_loongson_params h cpus lp_addr l st =
    (let p = boot_params_p st;
         st = st\<lparr>chain := chain st @
                 [(p, MemoryMap (init_memory_map (loaderparams st) zero_efi_memory_map_loongson))]\<rparr>;
         l = l\<lparr>memory_offset := p - lp_addr\<rparr>;
         p = p + align (sizeof_efi_memory_map_loongson (host_abi h))
     in case init_cpu_info (cpuinfo h) cpus zero_efi_cpuinfo_loongson of
          None \<Rightarrow> (Inl Undefined, st)
        | Some c \<Rightarrow>
           (let st = st\<lparr>chain := chain st @ [(p, CpuInfo c)]\<rparr>;
                l = l\<lparr>cpu_offset := p - lp_addr\<rparr>;
                p = p + align (sizeof_efi_cpuinfo_loongson (host_abi h));
                st = st\<lparr>chain := chain st @
                        [(p, SystemInfo (init_system_loongson zero_system_loongson))]\<rparr>;
                l = l\<lparr>system_offset := p - lp_addr\<rparr>;
                p = p + align (sizeof_system_loongson (host_abi h));
                st = st\<lparr>chain := chain st @
                        [(p, IrqSource (init_irq_source zero_irq_source_routing_table))]\<rparr>;
                l = l\<lparr>irq_offset := p - lp_addr\<rparr>;
                p = p + align (sizeof_irq_source_routing_table (host_abi h));
                st = st\<lparr>chain := chain st @
                        [(p, InterfaceInfo (init_interface_info zero_interface_info))]\<rparr>;
                l = l\<lparr>interface_offset := p - lp_addr\<rparr>;
                p = p + align (sizeof_interface_info (host_abi h));
                st = st\<lparr>chain := chain st @
                        [(p, BoardDevices (board_devices_info zero_board_devices))]\<rparr>;
                l = l\<lparr>boarddev_table_offset := p - lp_addr\<rparr>;
                p = p + align (sizeof_board_devices (host_abi h));
                st = st\<lparr>chain := chain st @
                        [(p, SpecialAttribute (init_special_info zero_loongson_special_attribute))]\<rparr>;
                l = l\<lparr>special_offset := p - lp_addr\<rparr>;
                p = p + align (sizeof_loongson_special_attribute (host_abi h))
            in (Inr l, st\<lparr>boot_params_p := p\<rparr>)))"

text \<open>
  \<^verbatim>\<open>init_smbios\<close>, \<^verbatim>\<open>init_efi\<close>, \<^verbatim>\<open>init_reset_system\<close> and \<^verbatim>\<open>init_boot_param\<close>, with
  the address \<open>bp_addr\<close> of the \<^verbatim>\<open>struct boot_params\<close>; \<^verbatim>\<open>\<close>\<^verbatim>\<open>&bp->efi.smbios.lp\<close> is
  \<open>bp_addr + offsetof_lp\<close>.
\<close>

definition init_smbios :: "host \<Rightarrow> u32 \<Rightarrow> u64 \<Rightarrow> smbios_tables \<Rightarrow> state \<Rightarrow> (fatal + smbios_tables) \<times> state" where
  "init_smbios h cpus lp_addr sm st =
    (let sm = sm\<lparr>sm_vers := 1\<rparr>
     in case init_loongson_params h cpus lp_addr (lp sm) st of
          (Inl e, st') \<Rightarrow> (Inl e, st')
        | (Inr l, st') \<Rightarrow> (Inr (sm\<lparr>lp := l\<rparr>), st'))"

definition init_efi :: "host \<Rightarrow> u32 \<Rightarrow> u64 \<Rightarrow> efi_loongson \<Rightarrow> state \<Rightarrow> (fatal + efi_loongson) \<times> state" where
  "init_efi h cpus lp_addr e st =
    (case init_smbios h cpus lp_addr (smbios e) st of
       (Inl x, st') \<Rightarrow> (Inl x, st')
     | (Inr sm, st') \<Rightarrow> (Inr (e\<lparr>smbios := sm\<rparr>), st'))"

definition init_reset_system :: "efi_reset_system_t \<Rightarrow> efi_reset_system_t" where
  "init_reset_system reset =
     reset\<lparr>Shutdown := 0xffffffffbfc000b0, ResetCold := 0xffffffffbfc00088,
           ResetWarm := 0xffffffffbfc00088\<rparr>"

definition init_boot_param :: "host \<Rightarrow> u32 \<Rightarrow> u64 \<Rightarrow> boot_params \<Rightarrow> state \<Rightarrow> (fatal + boot_params) \<times> state" where
  "init_boot_param h cpus bp_addr b st =
    (case init_efi h cpus (bp_addr + offsetof_lp (host_abi h)) (efi b) st of
       (Inl x, st') \<Rightarrow> (Inl x, st')
     | (Inr e, st') \<Rightarrow>
         (Inr (b\<lparr>efi := e, reset_system := init_reset_system (reset_system b)\<rparr>), st'))"

text \<open>\<^verbatim>\<open>fw_conf_init\<close>, on the path without a kernel.\<close>

definition fw_conf_init :: "host \<Rightarrow> u32 \<Rightarrow> u64 \<Rightarrow> state \<Rightarrow> (fatal + unit) \<times> state" where
  "fw_conf_init h cpus ram st =
    (let st = st\<lparr>events := events st @ [FwCfgInit]\<rparr>
     in case get_host_cpu_freq (cpuinfo h) of
          None \<Rightarrow> (Inl Undefined, st)
        | Some freq \<Rightarrow>
            (Inr (), st\<lparr>fw_config := \<lparr>fw_ram_size = ram, fw_mem_freq = 300000000,
                                      fw_nr_cpus = cpus,
                                      fw_cpu_clock_freq = freq\<rparr>\<rparr>))"

section \<open>The kernel loader and the boot parameters\<close>

subsection \<open>Formatting\<close>

text \<open>
  \<^verbatim>\<open>snprintf(buf, n, ...)\<close> of a formatted string: it stores at most \<open>n - 1\<close> characters
  and returns the length of the whole string. \<open>fmt_ld\<close> is \<^verbatim>\<open>%ld\<close>, \<open>fmt_016lx\<close> is
  \<^verbatim>\<open>TARGET_FMT_lx\<close>, sixteen lower-case hexadecimal digits.
\<close>

definition snprintf :: "nat \<Rightarrow> string \<Rightarrow> string \<times> int" where
  "snprintf n s = (take (n - 1) s, int (length s))"

fun fmt_lu :: "nat \<Rightarrow> string" where
  "fmt_lu n = (if n < 10 then [''0123456789'' ! n]
               else fmt_lu (n div 10) @ [''0123456789'' ! (n mod 10)])"

definition fmt_ld :: "int \<Rightarrow> string" where
  "fmt_ld i = (if i < 0 then CHR ''-'' # fmt_lu (nat (- i)) else fmt_lu (nat i))"

definition fmt_016lx :: "u64 \<Rightarrow> string" where
  "fmt_016lx x =
     map (\<lambda>i. ''0123456789abcdef'' ! unat (drop_bit (4 * (15 - i)) x AND 0xf)) [0..<16]"

definition PHYS_TO_VIRT :: "u64 \<Rightarrow> u64" where
  "PHYS_TO_VIRT x = x OR NOT 0x7fffffff"

subsection \<open>\<^verbatim>\<open>set_prom_bootparam\<close>\<close>

text \<open>
  \<open>ret\<close> is the \<^verbatim>\<open>int\<close> of the source; \<open>initrd_size\<close> is its \<^verbatim>\<open>long\<close>, read as signed
  where the source compares or prints it. The buffer is fresh from \<^verbatim>\<open>g_malloc0\<close>, at the
  host address \<open>g_malloc0 h\<close>.
\<close>

definition set_prom_bootparam :: "host \<Rightarrow> u32 \<Rightarrow> u64 \<Rightarrow> u64 \<Rightarrow> state \<Rightarrow> (fatal + int) \<times> state" where
  "set_prom_bootparam h cpus initrd_offset initrd_size st =
    (let lparams = loaderparams st;
         params_size = 0x100000;
         params_buf = g_malloc0 h;
         st = st\<lparr>chain := []\<rparr>;
         ret = (3 + 1) * 4;
         w0 = BOOTPARAM_ADDR + word_of_int ret;
         (s0, n0) = snprintf (nat (256 - ret)) ''g'';
         ret = ret + (1 + n0);
         w1 = BOOTPARAM_ADDR + word_of_int ret;
         (s1, n1) = snprintf (nat (256 - ret))
            (if 0 <s initrd_size
             then ''rd_start=0x''
                    @ fmt_016lx (PHYS_TO_VIRT (ucast (ucast initrd_offset :: u32)))
                    @ '' rd_size='' @ fmt_ld (sint initrd_size) @ '' ''
                    @ kernel_cmdline lparams
             else kernel_cmdline lparams);
         ret = ret + (1 + n1);
         w2 = BOOTPARAM_ADDR + word_of_int (4 * ret);
         memenv = fmt_ld (sint (if ram_size lparams > 0x10000000 then 256
                                else drop_bit 20 (ram_size lparams)));
         highmemenv = fmt_ld (sint (if ram_size lparams > 0x10000000
                                    then drop_bit 20 (ram_size lparams) - 256 else 0));
         st = st\<lparr>environ := (environ st)(''memsize'' \<mapsto> memenv)\<rparr>;
         st = st\<lparr>environ := (environ st)(''highmemsize'' \<mapsto> highmemenv)\<rparr>;
         ret = (ret + 32) AND NOT 31;
         st = st\<lparr>boot_params_buf := params_buf + word_of_int ret\<rparr>;
         st = st\<lparr>boot_params_p := boot_params_buf st + align (sizeof_boot_params (host_abi h))\<rparr>
     in case init_boot_param h cpus (boot_params_buf st) zero_boot_params st of
          (Inl x, st') \<Rightarrow> (Inl x, st')
        | (Inr b, st') \<Rightarrow>
           (let st' = st'\<lparr>events := events st' @
                        [RomAddBlobFixed ''params''
                           (ParamsBlob \<lparr>parg_env = [w0, w1, w2], argv0 = s0, argv1 = s1,
                                        bp_at = ret, bp = b, records = chain st'\<rparr>)
                           params_size BOOTPARAM_PHYADDR]\<rparr>;
                st' = st'\<lparr>loaderparams := (loaderparams st')
                         \<lparr>a0 := 2,
                          a1 := 0xffffffff80000000 + BOOTPARAM_PHYADDR,
                          a2 := 0xffffffff80000000 + BOOTPARAM_PHYADDR + word_of_int ret\<rparr>\<rparr>
            in (Inr 0, st')))"

subsection \<open>\<^verbatim>\<open>load_kernel\<close>\<close>

text \<open>
  \<^verbatim>\<open>INITRD_PAGE_MASK\<close> for page size \<open>2 ^ k\<close>, sign-extended to the 64 bits of
  \<^verbatim>\<open>kernel_high\<close>, and QEMU's macro \<^verbatim>\<open>MAX\<close>, here on unsigned operands.
\<close>

definition INITRD_PAGE_MASK :: "nat \<Rightarrow> u64" where
  "INITRD_PAGE_MASK k = NOT (push_bit k 1 - 1)"

definition MAX_macro :: "u64 \<Rightarrow> u64 \<Rightarrow> u64" where
  "MAX_macro a b = (if a > b then a else b)"

text \<open>
  The block of \<^verbatim>\<open>load_kernel\<close> under \<^verbatim>\<open>/* load initrd */\<close>, for a ram-disk file name
  \<open>rf\<close>: it gives \<^verbatim>\<open>initrd_offset\<close> and \<^verbatim>\<open>initrd_size\<close>, or stops. \<open>ram\<close> is the global
  \<^verbatim>\<open>ram_size\<close>; the sum \<^verbatim>\<open>initrd_offset + initrd_size\<close> is unsigned, and the \<^verbatim>\<open>int\<close> that
  \<^verbatim>\<open>load_image_targphys\<close> returns is sign-extended into the \<^verbatim>\<open>int64_t\<close>.
\<close>

definition load_initrd :: "host \<Rightarrow> u64 \<Rightarrow> u64 \<Rightarrow> string \<Rightarrow> state \<Rightarrow> (fatal + u64 \<times> u64) \<times> state" where
  "load_initrd h ram kernel_high rf st =
    (let initrd_size = get_image_size h rf;
         could_not_load = Exit (''could not load initial ram disk ''
                                 @ [CHR 0x27] @ rf @ [CHR 0x27])
     in if 0 <s initrd_size
        then
          (let initrd_offset = (kernel_high + NOT (INITRD_PAGE_MASK (initrd_page_bits h)))
                                 AND INITRD_PAGE_MASK (initrd_page_bits h);
               initrd_offset = MAX_macro initrd_offset INITRD_OFFSET
           in if initrd_offset + initrd_size > ram
              then (Inl (Exit (''memory too small for initial ram disk ''
                                @ [CHR 0x27] @ rf @ [CHR 0x27])), st)
              else
                (let initrd_size = scast (load_image_targphys h rf initrd_offset
                                            (ram - initrd_offset));
                     st = st\<lparr>events := events st @
                            [LoadImageTargphys rf initrd_offset (ram - initrd_offset)]\<rparr>
                 in if initrd_size = - 1 then (Inl could_not_load, st)
                    else (Inr (initrd_offset, initrd_size), st)))
        else if initrd_size = - 1 then (Inl could_not_load, st)
        else (Inr (0, initrd_size), st))"

text \<open>
  \<^verbatim>\<open>load_kernel\<close>. It is called with a kernel file name only; without one its behaviour
  is not defined.
\<close>

definition load_kernel :: "host \<Rightarrow> u32 \<Rightarrow> u64 \<Rightarrow> state \<Rightarrow> (fatal + u64) \<times> state" where
  "load_kernel h cpus ram st =
    (case kernel_filename (loaderparams st) of
       None \<Rightarrow> (Inl Undefined, st)
     | Some kf \<Rightarrow>
        (let (kernel_size, kernel_entry, kernel_low, kernel_high) = load_elf h kf;
             st = st\<lparr>events := events st @ [LoadElf kf]\<rparr>
         in if kernel_size <s 0
            then (Inl (Exit (''could not load kernel '' @ [CHR 0x27] @ kf @ [CHR 0x27]
                              @ '': '' @ load_elf_strerror h kernel_size)), st)
            else
              (case (case initrd_filename (loaderparams st) of
                       None \<Rightarrow> (Inr (0, 0), st)
                     | Some rf \<Rightarrow> load_initrd h ram kernel_high rf st) of
                 (Inl x, st) \<Rightarrow> (Inl x, st)
               | (Inr (initrd_offset, initrd_size), st) \<Rightarrow>
                  (case set_prom_bootparam h cpus initrd_offset initrd_size st of
                     (Inl x, st') \<Rightarrow> (Inl x, st')
                   | (Inr r, st') \<Rightarrow> (Inr kernel_entry, st')))))"

section \<open>Reset of the processors and platform initialisation\<close>

text \<open>
  The part of \<^verbatim>\<open>CPUMIPSState\<close> the reset handler writes; everything else of a processor
  is the record's extension. The bit numbers of the status register are those of the
  MIPS architecture, which the source names through \<^verbatim>\<open>cpu.h\<close>.
\<close>

record CPUMIPSState =
  gpr :: "u64 list"
  PC :: u64
  CP0_Status :: u32

definition CP0St_BEV :: nat where "CP0St_BEV = 22"
definition CP0St_ERL :: nat where "CP0St_ERL = 2"

text \<open>
  \<^verbatim>\<open>main_cpu_reset\<close> for the processor at index \<open>cpu\<close> of the list of processors;
  \<open>first_cpu\<close> is the index of the boot processor and \<open>cpu_reset\<close> the processor's own
  reset, a parameter.
\<close>

definition main_cpu_reset ::
  "('a CPUMIPSState_scheme \<Rightarrow> 'a CPUMIPSState_scheme) \<Rightarrow> loaderparams_t \<Rightarrow> nat \<Rightarrow> nat
     \<Rightarrow> 'a CPUMIPSState_scheme list \<Rightarrow> 'a CPUMIPSState_scheme list" where
  "main_cpu_reset cpu_reset lparams first_cpu cpu cpus =
    cpus[cpu :=
      (let env = cpu_reset (cpus ! cpu)
       in case kernel_filename lparams of
            None \<Rightarrow> env
          | Some kf \<Rightarrow>
             (let env = (if cpu = first_cpu
                         then env\<lparr>gpr := (gpr env)[4 := a0 lparams, 5 := a1 lparams,
                                                   6 := a2 lparams],
                                  PC := kernel_entry lparams\<rparr>
                         else env)
              in env\<lparr>CP0_Status := CP0_Status env
                         AND NOT (push_bit CP0St_BEV 1 OR push_bit CP0St_ERL 1)\<rparr>))]"

text \<open>The loop of \<^verbatim>\<open>mips_loongson3_init\<close> that creates the processors.\<close>

definition create_cpus :: "nat \<Rightarrow> event list" where
  "create_cpus n =
     concat (map (\<lambda>i. [CpuCreate i, CpuMipsIrqInitCpu i, CpuMipsClockInit i,
                        QemuRegisterReset i]) [0..<n])"

text \<open>The end of \<^verbatim>\<open>mips_loongson3_init\<close>, common to both branches.\<close>

definition init_buses :: "host \<Rightarrow> state \<Rightarrow> state" where
  "init_buses h st =
     st\<lparr>events := events st @ [Loongson3IsaInit, Loongson3PcieInit]
                     @ (if serial_hd0 h then [SerialMmInit 0x1fe001e0] else [])\<rparr>"

text \<open>
  \<^verbatim>\<open>mips_loongson3_init\<close>. The allocations of the three \<^verbatim>\<open>MemoryRegion\<close> structs before
  the check of the RAM size create nothing in the machine and leave no event.
\<close>

definition mips_loongson3_init :: "host \<Rightarrow> MachineState \<Rightarrow> state \<Rightarrow> (fatal + unit) \<times> state" where
  "mips_loongson3_init h machine st =
    (if m_ram_size machine < 256 * 0x100000
     then (Inl (Exit ''Loongson-3 need at least 256MB memory''), st)
     else
       (let st = st\<lparr>events := events st @ create_cpus (unat (smp_cpus machine))\<rparr>;
            st = st\<lparr>events := events st @
                   [MemoryRegionInit ''loongson3.bios'',
                    MemoryRegionInit ''loongson3.lowram'',
                    MemoryRegionInit ''loongson3_pm'',
                    MemoryRegionAddSubregion ''loongson3.lowram'' 0x00000000,
                    MemoryRegionAddSubregion ''loongson3.bios'' 0x1fc00000,
                    MemoryRegionAddSubregion ''loongson3.highram'' 0x80000000,
                    MemoryRegionAddSubregion ''loongson3_pm'' 0x0e0010080000]\<rparr>
        in case m_kernel_filename machine of
             Some kf \<Rightarrow>
               (let st = st\<lparr>loaderparams := (loaderparams st)
                           \<lparr>ram_size := m_ram_size machine,
                            kernel_filename := Some kf,
                            kernel_cmdline := m_kernel_cmdline machine,
                            initrd_filename := m_initrd_filename machine\<rparr>\<rparr>
                in case load_kernel h (smp_cpus machine) (m_ram_size machine) st of
                     (Inl x, st') \<Rightarrow> (Inl x, st')
                   | (Inr entry, st') \<Rightarrow>
                      (let st' = st'\<lparr>loaderparams :=
                                      (loaderparams st')\<lparr>kernel_entry := entry\<rparr>\<rparr>;
                           st' = st'\<lparr>events := events st' @
                                   [RomAddBlobFixed ''bios'' BiosBootCode
                                      (sizeof_bios_boot_code (host_abi h)) 0x1fc00000]\<rparr>
                       in (Inr (), init_buses h st')))
           | None \<Rightarrow>
               (let bname = (case bios_name machine of None \<Rightarrow> LOONGSON3_BIOSNAME
                             | Some b \<Rightarrow> b);
                    (bios_size, st) =
                      (case qemu_find_file h bname of
                         Some filename \<Rightarrow>
                           (sint (load_image_targphys h filename 0x1fc00000
                                    (word_of_int BIOS_SIZE)),
                            st\<lparr>events := events st @
                                 [LoadImageTargphys filename 0x1fc00000
                                    (word_of_int BIOS_SIZE)]\<rparr>)
                       | None \<Rightarrow> (- 1, st))
                in if (bios_size < 0 \<or> bios_size > BIOS_SIZE) \<and> \<not> qtest_enabled h
                   then (Inl (Exit (''Could not load MIPS bios '' @ [CHR 0x27] @ bname
                                     @ [CHR 0x27])), st)
                   else
                     (case fw_conf_init h (smp_cpus machine) (m_ram_size machine) st of
                        (Inl x, st') \<Rightarrow> (Inl x, st')
                      | (Inr u, st') \<Rightarrow>
                         (let st' = st'\<lparr>events := events st' @
                                      [RomAddBlobFixed ''fw_conf'' (FwConfig (fw_config st'))
                                         (sizeof_fw_config (host_abi h)) FW_CONF_ADDR]\<rparr>
                          in (Inr (), init_buses h st'))))))"

section \<open>Example inputs\<close>

text \<open>
  Concrete inputs for the examples below. The host has the LP64 layout, a 64 KiB
  ram-disk page and an ELF loader that accepts every file (8 MiB loaded, highest address
  0xa00000); its \<^verbatim>\<open>/proc/cpuinfo\<close> and the size of every image file are the arguments.
  The machine has 512 MiB of RAM, a kernel, no ram-disk and two processors. The initial
  state has the zeroed globals of a C program and no environment variables; the loader
  state is the one in which \<^verbatim>\<open>load_kernel\<close> runs for 256 MiB, a kernel and a ram-disk.
\<close>

definition example_host :: "host_file \<Rightarrow> u64 \<Rightarrow> host" where
  "example_host f image_size =
     \<lparr>cpuinfo = f, g_malloc0 = 0x7f0000000000,
      load_elf = (\<lambda>name. (0x800000, 0xffffffff80200000, 0x200000, 0xa00000)),
      load_elf_strerror = (\<lambda>e. []),
      get_image_size = (\<lambda>name. image_size),
      load_image_targphys = (\<lambda>name addr max_sz. ucast image_size),
      qemu_find_file = (\<lambda>name. None), qtest_enabled = False, serial_hd0 = True,
      initrd_page_bits = 16, host_abi = lp64_abi\<rparr>"

definition example_machine :: MachineState where
  "example_machine =
     \<lparr>m_ram_size = 0x20000000, m_kernel_filename = Some ''vmlinux'',
      m_kernel_cmdline = ''console=ttyS0'', m_initrd_filename = None, smp_cpus = 2,
      bios_name = None\<rparr>"

definition initial_state :: state where
  "initial_state =
     \<lparr>loaderparams = \<lparr>ram_size = 0, kernel_cmdline = [], kernel_filename = None,
                       initrd_filename = None, kernel_entry = 0, a0 = 0, a1 = 0, a2 = 0\<rparr>,
      fw_config = \<lparr>fw_ram_size = 0, fw_mem_freq = 0, fw_nr_cpus = 0, fw_cpu_clock_freq = 0\<rparr>,
      boot_params_p = 0, boot_params_buf = 0, chain = [], environ = Map.empty,
      events = []\<rparr>"

definition example_loader_state :: state where
  "example_loader_state =
     initial_state\<lparr>loaderparams :=
       \<lparr>ram_size = 0x10000000, kernel_cmdline = ''console=ttyS0'',
        kernel_filename = Some ''vmlinux'', initrd_filename = Some ''initrd.img'',
        kernel_entry = 0, a0 = 0, a1 = 0, a2 = 0\<rparr>\<rparr>"

text \<open>
  An instance of the processor's own reset: the general registers cleared, the program
  counter at the reset vector, and BEV and ERL set in the status register, the two bits
  that \<^verbatim>\<open>main_cpu_reset\<close> goes on to clear.
\<close>

definition example_cpu_reset :: "CPUMIPSState \<Rightarrow> CPUMIPSState" where
  "example_cpu_reset e =
     e\<lparr>gpr := replicate 32 0, PC := 0xffffffffbfc00000, CP0_Status := 0x00400004\<rparr>"

definition example_cpu :: CPUMIPSState where
  "example_cpu = \<lparr>gpr = replicate 32 0, PC = 0, CP0_Status = 0\<rparr>"

chapter \<open>Properties\<close>

section \<open>The host bridge\<close>

lemmas pci_register_offsets =
  PCI_BASE_ADDRESS_0_def PCI_BASE_ADDRESS_1_def PCI_BASE_ADDRESS_2_def
  PCI_BASE_ADDRESS_3_def PCI_BASE_ADDRESS_4_def PCI_BASE_ADDRESS_5_def
  PCI_CARDBUS_CIS_def PCI_INTERRUPT_PIN_def

lemmas pci_accessors =
  pci_set_byte_def pci_set_word_def pci_set_long_def
  pci_get_byte_def pci_get_word_def pci_get_long_def

lemma length_ls7a_reset_config: "length (ls7a_reset_config c) = length c"
  by (simp add: ls7a_reset_config_def pci_accessors)

text \<open>
  C1. Whatever the configuration space holds before (so at every reset, not only the
  first), after \<^verbatim>\<open>ls7a_reset\<close> the vendor word at 0x0 reads 0x0014, the device word at
  0x2 reads 0x7a00, the revision byte at 0x8 reads 0, the class bytes at 0xb and 0xa
  read 0x06 and 0x00, BAR3 reads 0x00000004 and BAR0, BAR1, BAR2, BAR4 and BAR5 read 0.
\<close>

theorem ls7a_reset_image:
  assumes "length (config dev) = PCI_CONFIG_SPACE_SIZE"
  shows "pci_get_word (config (ls7a_reset dev)) 0x0 = 0x0014
       \<and> pci_get_word (config (ls7a_reset dev)) 0x2 = 0x7a00
       \<and> pci_get_byte (config (ls7a_reset dev)) 0x8 = 0x00
       \<and> pci_get_byte (config (ls7a_reset dev)) 0xb = 0x06
       \<and> pci_get_byte (config (ls7a_reset dev)) 0xa = 0x00
       \<and> pci_get_long (config (ls7a_reset dev)) PCI_BASE_ADDRESS_3 = 0x00000004
       \<and> pci_get_long (config (ls7a_reset dev)) PCI_BASE_ADDRESS_0 = 0
       \<and> pci_get_long (config (ls7a_reset dev)) PCI_BASE_ADDRESS_1 = 0
       \<and> pci_get_long (config (ls7a_reset dev)) PCI_BASE_ADDRESS_2 = 0
       \<and> pci_get_long (config (ls7a_reset dev)) PCI_BASE_ADDRESS_4 = 0
       \<and> pci_get_long (config (ls7a_reset dev)) PCI_BASE_ADDRESS_5 = 0"
  using assms
  by (simp add: ls7a_reset_def ls7a_reset_config_def pci_accessors pci_register_offsets
      PCI_CONFIG_SPACE_SIZE_def Let_def)

theorem ls7a_reset_image_witness:
  "length (config \<lparr>config = replicate 256 0xff, wmask = replicate 256 0xff,
                   cmask = replicate 256 0, devfn = 0\<rparr>) = PCI_CONFIG_SPACE_SIZE
   \<and> pci_get_word (config (ls7a_reset \<lparr>config = replicate 256 0xff,
         wmask = replicate 256 0xff, cmask = replicate 256 0, devfn = 0\<rparr>)) 0x2 = 0x7a00
   \<and> pci_get_long (config (ls7a_reset \<lparr>config = replicate 256 0xff,
         wmask = replicate 256 0xff, cmask = replicate 256 0, devfn = 0\<rparr>))
         PCI_BASE_ADDRESS_3 = 0x00000004"
  using ls7a_reset_image [of "\<lparr>config = replicate 256 0xff, wmask = replicate 256 0xff,
                               cmask = replicate 256 0, devfn = 0\<rparr>"]
  by (simp add: PCI_CONFIG_SPACE_SIZE_def)

lemma smod_8_nonneg: "0 \<le> (k::int) \<Longrightarrow> k smod 8 = k mod 8"
  by (simp add: signed_modulo_int_def sgn_if)

text \<open>
  C3. For a device whose slot (\<^verbatim>\<open>devfn >> 3\<close>) is in 0..31 and whose interrupt-pin byte
  is in 1..4, \<^verbatim>\<open>pci_ls7a_map_irq\<close> returns the entry of the eight-entry table at index
  (pin + slot) mod 8, and any device with the same \<^verbatim>\<open>devfn\<close> and the same pin byte
  gets the same result.
\<close>

theorem pci_ls7a_map_irq_table:
  assumes len: "length (config d) = PCI_CONFIG_SPACE_SIZE"
    and slot: "0 \<le> drop_bit 3 (devfn d)" "drop_bit 3 (devfn d) \<le> 31"
    and pin: "1 \<le> uint (config d ! PCI_INTERRUPT_PIN)"
      "uint (config d ! PCI_INTERRUPT_PIN) \<le> 4"
  shows "pci_ls7a_map_irq d =
           Some ([3, 4, 5, 6, 7, 9, 10, 11] !
                   nat ((uint (config d ! PCI_INTERRUPT_PIN) + drop_bit 3 (devfn d)) mod 8))
         \<and> (\<forall>d' :: 'a PCIDevice_scheme.
               devfn d' = devfn d
               \<and> config d' ! PCI_INTERRUPT_PIN = config d ! PCI_INTERRUPT_PIN
               \<longrightarrow> pci_ls7a_map_irq d' = pci_ls7a_map_irq d)"
proof -
  let ?k = "uint (config d ! PCI_INTERRUPT_PIN) + drop_bit 3 (devfn d)"
  have k0: "0 \<le> ?k" using slot pin by linarith
  have m: "?k smod 8 = ?k mod 8" using k0 by (rule smod_8_nonneg)
  have r: "0 \<le> ?k mod 8" "?k mod 8 < 8" by simp_all
  have 1: "pci_ls7a_map_irq d = Some ([3, 4, 5, 6, 7, 9, 10, 11] ! nat (?k mod 8))"
    using r by (simp add: pci_ls7a_map_irq_def Let_def m virq_def)
  have 2: "\<forall>d' :: 'a PCIDevice_scheme.
             devfn d' = devfn d
             \<and> config d' ! PCI_INTERRUPT_PIN = config d ! PCI_INTERRUPT_PIN
             \<longrightarrow> pci_ls7a_map_irq d' = pci_ls7a_map_irq d"
    by (simp add: pci_ls7a_map_irq_def)
  show ?thesis using 1 2 by blast
qed

theorem pci_ls7a_map_irq_table_witness:
  "length (config \<lparr>config = (replicate 256 0)[61 := 2], wmask = [], cmask = [],
                   devfn = 0x28\<rparr>) = PCI_CONFIG_SPACE_SIZE
   \<and> drop_bit 3 (devfn \<lparr>config = (replicate 256 0)[61 := 2], wmask = [], cmask = [],
                         devfn = 0x28\<rparr>) = 5
   \<and> uint (config \<lparr>config = (replicate 256 0)[61 := 2], wmask = [], cmask = [],
                   devfn = 0x28\<rparr> ! PCI_INTERRUPT_PIN) = 2
   \<and> pci_ls7a_map_irq \<lparr>config = (replicate 256 0)[61 := 2], wmask = [], cmask = [],
                        devfn = 0x28\<rparr> = Some 11"
  using pci_ls7a_map_irq_table [of "\<lparr>config = (replicate 256 0)[61 := 2], wmask = [],
                                     cmask = [], devfn = 0x28\<rparr>"]
  by (clarsimp simp add: PCI_CONFIG_SPACE_SIZE_def PCI_INTERRUPT_PIN_def drop_bit_eq_div)

lemma and_0x1000000_iff_bit_24: "(addr :: u64) AND 0x1000000 \<noteq> 0 \<longleftrightarrow> bit addr 24"
proof -
  have "(addr AND 2 ^ 24 = 0) = (\<not> bit addr 24)" by (rule and_exp_eq_0_iff_not_bit)
  then show ?thesis by simp
qed

lemma and_0xffff_take_bit: "(addr :: u64) AND 0xffff = take_bit 16 addr"
  by (simp add: take_bit_eq_mask mask_eq_exp_minus_1)

lemma and_0xffffff_take_bit: "(addr :: u64) AND 0xffffff = take_bit 24 addr"
  by (simp add: take_bit_eq_mask mask_eq_exp_minus_1)

lemma unat_ucast_64_32: "unat (ucast (w :: u64) :: u32) = unat w mod 2 ^ 32"
  by (simp add: unsigned_ucast_eq take_bit_eq_mod)

lemma unat_take_bit_64: "unat (take_bit n (w :: u64)) = unat w mod 2 ^ n"
  unfolding unsigned_take_bit_eq by (rule take_bit_eq_mod)

lemma unat_ucast_take_bit_16: "unat (ucast (take_bit 16 (addr :: u64)) :: u32) = unat addr mod 2 ^ 16"
proof -
  have "unat addr mod 2 ^ 16 < (2::nat) ^ 32"
    by (rule less_trans [of _ "2 ^ 16"]) simp_all
  then show ?thesis by (simp only: unat_ucast_64_32 unat_take_bit_64 mod_less)
qed

lemma unat_ucast_take_bit_24: "unat (ucast (take_bit 24 (addr :: u64)) :: u32) = unat addr mod 2 ^ 24"
proof -
  have "unat addr mod 2 ^ 24 < (2::nat) ^ 32"
    by (rule less_trans [of _ "2 ^ 24"]) simp_all
  then show ?thesis by (simp only: unat_ucast_64_32 unat_take_bit_64 mod_less)
qed

lemma unat_ucast_32_64: "unat (ucast (r :: u32) :: u64) = unat r"
proof -
  have "unat r < 2 ^ 32" using unsigned_less [of r] by simp
  then have "unat r < 2 ^ 64" by simp
  then show ?thesis
    by (simp add: unsigned_ucast_eq unsigned_take_bit_eq take_bit_eq_mod)
qed

lemma unat_ucast_64_32_small: "(val :: u64) < 2 ^ 32 \<Longrightarrow> unat (ucast val :: u32) = unat val"
  by (simp add: unat_ucast_64_32 word_less_nat_alt)

text \<open>
  C5. In the extended configuration window, read and write hand the primitive the
  folded address: \<^verbatim>\<open>addr & 0xffff\<close> if bit 24 (0x1000000) of the address is set, else
  \<^verbatim>\<open>addr & 0xffffff\<close>, that is the address modulo \<open>2 ^ 16\<close> or modulo \<open>2 ^ 24\<close>. The read
  returns the primitive's 32-bit result with its value unchanged, and the write hands
  over the value written, unchanged for every value of an access of at most four bytes.
\<close>

theorem ls7a_pci_config_fold:
  "ls7a_pci_config_read rd bus addr sz =
      ucast (rd bus (ucast (if bit addr 24 then addr AND 0xffff else addr AND 0xffffff)) sz)
   \<and> ls7a_pci_config_write wr bus addr val sz =
      wr bus (ucast (if bit addr 24 then addr AND 0xffff else addr AND 0xffffff))
        (ucast val) sz
   \<and> unat (ucast (if bit addr 24 then addr AND 0xffff else addr AND 0xffffff) :: u32) =
      (if bit addr 24 then unat addr mod 2 ^ 16 else unat addr mod 2 ^ 24)
   \<and> unat (ls7a_pci_config_read rd bus addr sz) =
      unat (rd bus (ucast (if bit addr 24 then addr AND 0xffff else addr AND 0xffffff)) sz)
   \<and> (val < 2 ^ 32 \<longrightarrow> unat (ucast val :: u32) = unat val)"
proof (intro conjI impI)
  show "ls7a_pci_config_read rd bus addr sz =
      ucast (rd bus (ucast (if bit addr 24 then addr AND 0xffff else addr AND 0xffffff)) sz)"
    by (simp only: ls7a_pci_config_read_def Let_def and_0x1000000_iff_bit_24)
  show "ls7a_pci_config_write wr bus addr val sz =
      wr bus (ucast (if bit addr 24 then addr AND 0xffff else addr AND 0xffffff))
        (ucast val) sz"
    by (simp only: ls7a_pci_config_write_def Let_def and_0x1000000_iff_bit_24)
  show "unat (ucast (if bit addr 24 then addr AND 0xffff else addr AND 0xffffff) :: u32) =
      (if bit addr 24 then unat addr mod 2 ^ 16 else unat addr mod 2 ^ 24)"
    by (simp only: and_0xffff_take_bit and_0xffffff_take_bit unat_ucast_take_bit_16
        unat_ucast_take_bit_24 if_distrib [of unat] if_distrib [of ucast] cong: if_cong)
  show "unat (ls7a_pci_config_read rd bus addr sz) =
      unat (rd bus (ucast (if bit addr 24 then addr AND 0xffff else addr AND 0xffffff)) sz)"
    by (simp only: ls7a_pci_config_read_def Let_def and_0x1000000_iff_bit_24
        unat_ucast_32_64)
  show "unat (ucast val :: u32) = unat val" if "val < 2 ^ 32"
    using that by (rule unat_ucast_64_32_small)
qed

theorem ls7a_pci_config_fold_witness:
  "(0x1234 :: u64) < 2 ^ 32
   \<and> ls7a_pci_config_write (\<lambda>(b :: (u32 \<times> u32 \<times> u32) list) a v s. b @ [(a, v, s)])
        [] 0x1012345 0x1234 2 = [(0x2345, 0x1234, 2)]
   \<and> unat (ucast (0x1234 :: u64) :: u32) = unat (0x1234 :: u64)"
  using ls7a_pci_config_fold [of "\<lambda>b a s. 0" "[]" "0x1012345" 2
      "\<lambda>(b :: (u32 \<times> u32 \<times> u32) list) a v s. b @ [(a, v, s)]" "0x1234"]
  by (simp add: bit_iff_odd)

section \<open>The power-management trap\<close>

text \<open>
  C4. A write of 0x00 to the control offset makes exactly one reset request and no
  shutdown request; a write of 0xff to it makes exactly one shutdown request and no
  reset request; a write of any other value, or to any other offset, makes no request
  at all; every read returns 0.
\<close>

theorem loongson3_pm_trap:
  "(addr = PM_CNTL_MODE \<and> val = 0x00 \<longrightarrow>
      reset_requests (loongson3_pm_write l addr val sz) =
        reset_requests l @ [SHUTDOWN_CAUSE_GUEST_RESET]
      \<and> shutdown_requests (loongson3_pm_write l addr val sz) = shutdown_requests l)
   \<and> (addr = PM_CNTL_MODE \<and> val = 0xff \<longrightarrow>
      shutdown_requests (loongson3_pm_write l addr val sz) =
        shutdown_requests l @ [SHUTDOWN_CAUSE_GUEST_SHUTDOWN]
      \<and> reset_requests (loongson3_pm_write l addr val sz) = reset_requests l)
   \<and> (addr \<noteq> PM_CNTL_MODE \<or> (val \<noteq> 0x00 \<and> val \<noteq> 0xff) \<longrightarrow>
      loongson3_pm_write l addr val sz = l)
   \<and> loongson3_pm_read l addr sz = 0"
  by (simp add: loongson3_pm_write_def loongson3_pm_read_def qemu_system_reset_request_def
      qemu_system_shutdown_request_def)

theorem loongson3_pm_trap_witness:
  "reset_requests (loongson3_pm_write \<lparr>reset_requests = [], shutdown_requests = []\<rparr>
      PM_CNTL_MODE 0x00 1) = [SHUTDOWN_CAUSE_GUEST_RESET]
   \<and> shutdown_requests (loongson3_pm_write \<lparr>reset_requests = [], shutdown_requests = []\<rparr>
      PM_CNTL_MODE 0x00 1) = []"
  using loongson3_pm_trap [of PM_CNTL_MODE "0x00" "\<lparr>reset_requests = [], shutdown_requests = []\<rparr>" 1]
  by simp

section \<open>The boot-information tables\<close>

lemma unat_drop_bit_20: "unat (drop_bit 20 (r :: u64)) = unat r div 2 ^ 20"
  by (simp only: unat_drop_bit_eq) (simp add: drop_bit_eq_div)

lemma mem_size_low_exact:
  assumes "0x1000000 \<le> (r :: u64)" "r \<le> 0x10000000"
  shows "unat (ucast (drop_bit 20 r - 16) :: u32) = unat r div 2 ^ 20 - 16"
proof -
  have r: "16777216 \<le> unat r" "unat r \<le> 268435456"
    using assms by (simp_all add: word_le_nat_alt)
  have d: "16 \<le> unat r div 2 ^ 20" "unat r div 2 ^ 20 \<le> 256" using r by simp_all
  have "(16 :: u64) \<le> drop_bit 20 r"
    using d by (simp add: word_le_nat_alt unat_drop_bit_20)
  then have "unat (drop_bit 20 r - 16) = unat r div 2 ^ 20 - 16"
    by (simp add: unat_sub unat_drop_bit_20)
  then show ?thesis using d by (simp add: unat_ucast_64_32)
qed

lemma mem_size_high_exact:
  assumes "0x10000000 < (r :: u64)" "r < 2 ^ 52"
  shows "unat (ucast (drop_bit 20 r - 256) :: u32) = unat r div 2 ^ 20 - 256"
proof -
  have r: "268435456 < unat r" "unat r < 2 ^ 52"
    using assms by (simp_all add: word_less_nat_alt)
  have d: "256 \<le> unat r div 2 ^ 20" "unat r div 2 ^ 20 < 2 ^ 32" using r by simp_all
  have "(256 :: u64) \<le> drop_bit 20 r"
    using d by (simp add: word_le_nat_alt unat_drop_bit_20)
  then have "unat (drop_bit 20 r - 256) = unat r div 2 ^ 20 - 256"
    by (simp add: unat_sub unat_drop_bit_20)
  then show ?thesis using d by (simp add: unat_ucast_64_32)
qed

text \<open>
  C2, as stated, fails: with 512 MiB of RAM the size field of the low-memory entry is
  not 256.
\<close>

theorem init_memory_map_low_size_counterexample:
  "mem_size (mmap (init_memory_map
      \<lparr>ram_size = 0x20000000, kernel_cmdline = [], kernel_filename = None,
       initrd_filename = None, kernel_entry = 0, a0 = 0, a1 = 0, a2 = 0\<rparr>
      zero_efi_memory_map_loongson) ! 0) \<noteq> 256"
  by (simp add: init_memory_map_def zero_efi_memory_map_loongson_def)

text \<open>
  C2, amended. The low-memory entry leaves out 16 MiB: for RAM size R up to 256 MiB
  the size field of \<^verbatim>\<open>map[0]\<close> is (R >> 20) - 16, computed in 64 bits and stored in 32,
  and that of \<^verbatim>\<open>map[1]\<close> is 0; for R above 256 MiB the field of \<^verbatim>\<open>map[0]\<close> is 240 and that
  of \<^verbatim>\<open>map[1]\<close> is (R >> 20) - 256 stored in 32 bits. As numbers: the low field is
  R div 2^20 - 16 for R from 16 MiB to 256 MiB, and the high field is R div 2^20 - 256
  for R above 256 MiB and below 2^52.
\<close>

theorem init_memory_map_split:
  assumes len: "length (mmap emap) = 128"
  shows "(ram_size lparams \<le> 0x10000000 \<longrightarrow>
           mem_size (mmap (init_memory_map lparams emap) ! 0)
             = ucast (drop_bit 20 (ram_size lparams) - 16)
           \<and> mem_size (mmap (init_memory_map lparams emap) ! 1) = 0)
       \<and> (0x10000000 < ram_size lparams \<longrightarrow>
           mem_size (mmap (init_memory_map lparams emap) ! 0) = 240
           \<and> mem_size (mmap (init_memory_map lparams emap) ! 1)
             = ucast (drop_bit 20 (ram_size lparams) - 256))
       \<and> (0x1000000 \<le> ram_size lparams \<and> ram_size lparams \<le> 0x10000000 \<longrightarrow>
           unat (mem_size (mmap (init_memory_map lparams emap) ! 0))
             = unat (ram_size lparams) div 2 ^ 20 - 16)
       \<and> (0x10000000 < ram_size lparams \<and> ram_size lparams < 2 ^ 52 \<longrightarrow>
           unat (mem_size (mmap (init_memory_map lparams emap) ! 1))
             = unat (ram_size lparams) div 2 ^ 20 - 256)"
proof -
  have m0: "mem_size (mmap (init_memory_map lparams emap) ! 0) =
      ucast ((if ram_size lparams > 0x10000000 then 256
              else drop_bit 20 (ram_size lparams)) - 16)"
    using len by (simp add: init_memory_map_def)
  have m1: "mem_size (mmap (init_memory_map lparams emap) ! 1) =
      ucast (if ram_size lparams > 0x10000000
             then drop_bit 20 (ram_size lparams) - 256 else 0)"
    using len by (simp add: init_memory_map_def)
  show ?thesis
    unfolding m0 m1
    using mem_size_low_exact [of "ram_size lparams"]
      mem_size_high_exact [of "ram_size lparams"]
    by (auto simp add: not_less)
qed

theorem init_memory_map_split_witness:
  "length (mmap zero_efi_memory_map_loongson) = 128
   \<and> (0x10000000 :: u64) < 0x20000000 \<and> (0x20000000 :: u64) < 2 ^ 52
   \<and> mem_size (mmap (init_memory_map
        \<lparr>ram_size = 0x20000000, kernel_cmdline = [], kernel_filename = None,
         initrd_filename = None, kernel_entry = 0, a0 = 0, a1 = 0, a2 = 0\<rparr>
        zero_efi_memory_map_loongson) ! 0) = 240
   \<and> unat (mem_size (mmap (init_memory_map
        \<lparr>ram_size = 0x20000000, kernel_cmdline = [], kernel_filename = None,
         initrd_filename = None, kernel_entry = 0, a0 = 0, a1 = 0, a2 = 0\<rparr>
        zero_efi_memory_map_loongson) ! 1)) = 256"
  using init_memory_map_split [of zero_efi_memory_map_loongson
      "\<lparr>ram_size = 0x20000000, kernel_cmdline = [], kernel_filename = None,
        initrd_filename = None, kernel_entry = 0, a0 = 0, a1 = 0, a2 = 0\<rparr>"]
  by (simp add: zero_efi_memory_map_loongson_def)

lemma init_cpu_info_Some:
  "get_host_cpu_freq f \<noteq> None \<Longrightarrow> \<exists>c. init_cpu_info f cpus z = Some c"
  by (auto simp add: init_cpu_info_def)

lemma and_not_mask_push_drop: "(x :: u64) AND NOT (mask k) = push_bit k (drop_bit k x)"
  by (rule bit_eqI) (auto simp add: bit_simps)

lemma unat_and_not_mask: "unat ((x :: u64) AND NOT (mask k)) = (unat x div 2 ^ k) * 2 ^ k"
proof -
  have le: "(unat x div 2 ^ k) * 2 ^ k \<le> unat x"
    by (rule div_times_less_eq_dividend)
  have "unat x < 2 ^ 64" using unsigned_less [of x] by simp
  with le have lt: "(unat x div 2 ^ k) * 2 ^ k < 2 ^ 64" by linarith
  have "unat (push_bit k (drop_bit k x)) = take_bit 64 (push_bit k (drop_bit k (unat x)))"
    by (simp add: unsigned_push_bit_eq unat_drop_bit_eq)
  also have "push_bit k (drop_bit k (unat x)) = (unat x div 2 ^ k) * 2 ^ k"
    by (simp add: push_bit_eq_mult drop_bit_eq_div)
  also have "take_bit 64 ((unat x div 2 ^ k) * 2 ^ k) = (unat x div 2 ^ k) * 2 ^ k"
    using lt by (simp add: take_bit_nat_eq_self)
  finally show ?thesis by (simp add: and_not_mask_push_drop)
qed

lemma align_up_ge:
  fixes h m :: nat
  assumes "0 < m"
  shows "h \<le> ((h + (m - 1)) div m) * m"
proof -
  have "h + (m - 1) = ((h + (m - 1)) div m) * m + (h + (m - 1)) mod m" by simp
  moreover have "(h + (m - 1)) mod m \<le> m - 1" using assms
    by (metis Suc_pred' less_Suc_eq_le mod_less_divisor)
  ultimately show ?thesis by linarith
qed

lemma unat_align:
  assumes "unat x + 63 < 2 ^ 64"
  shows "unat (align x) = ((unat x + 63) div 64) * 64"
proof -
  have m: "(63 :: u64) = mask 6" by (simp add: mask_eq_exp_minus_1)
  have "unat x + unat (63 :: u64) < 2 ^ 64" using assms by simp
  then have "unat (x + 63) = unat x + unat (63 :: u64)"
    by (simp add: unat_add_lem [THEN iffD1])
  then have s: "unat (x + 63) = unat x + 63" by simp
  have "unat ((x + 63) AND NOT (mask 6)) = (unat (x + 63) div 2 ^ 6) * 2 ^ 6"
    by (rule unat_and_not_mask)
  then show ?thesis by (simp add: align_def m [symmetric] s)
qed

lemma align_round_up:
  assumes "unat x + 63 < 2 ^ 64"
  shows "unat (align x) = ((unat x + 63) div 64) * 64
       \<and> 64 dvd unat (align x) \<and> unat x \<le> unat (align x) \<and> unat (align x) < unat x + 64"
proof -
  have u: "unat (align x) = ((unat x + 63) div 64) * 64" using assms by (rule unat_align)
  have ge: "unat x \<le> ((unat x + (64 - 1)) div 64) * 64" by (rule align_up_ge) simp
  have le: "((unat x + 63) div 64) * 64 \<le> unat x + 63" by (rule div_times_less_eq_dividend)
  show ?thesis using u ge le by simp
qed


lemma init_boot_param_built:
  assumes probe: "get_host_cpu_freq (cpuinfo h) \<noteq> None"
    and run: "init_boot_param h cpus a b st = (r, st')"
  shows "\<exists>b'. r = Inr b'
     \<and> length (chain st') = length (chain st) + 7
     \<and> fst (chain st' ! length (chain st)) = boot_params_p st
     \<and> map (\<lambda>(p, r). p - (a + offsetof_lp (host_abi h)))
           (drop (length (chain st)) (chain st')) =
         [memory_offset (lp (smbios (efi b'))), cpu_offset (lp (smbios (efi b'))),
          system_offset (lp (smbios (efi b'))), irq_offset (lp (smbios (efi b'))),
          interface_offset (lp (smbios (efi b'))),
          boarddev_table_offset (lp (smbios (efi b'))),
          special_offset (lp (smbios (efi b')))]
     \<and> events st' = events st \<and> boot_params_buf st' = boot_params_buf st"
proof -
  from probe obtain c
    where c: "init_cpu_info (cpuinfo h) cpus zero_efi_cpuinfo_loongson = Some c"
    using init_cpu_info_Some by blast
  show ?thesis
    using run
    by (auto simp add: init_boot_param_def init_efi_def init_smbios_def
        init_loongson_params_def Let_def c nth_append)
qed

text \<open>
  C6. When the chain is built (the probe of the host's frequency returns):
  \<^item> in \<^verbatim>\<open>init_loongson_params\<close> the seven records lie in the order memory map, CPU info,
    system info, IRQ routing, interface info, board devices, special attribute; each
    starts \<open>align\<close> of the size of the one before it after that one's start; every offset
    field is the start address of its record minus the pointer \<^verbatim>\<open>lp\<close> the function is
    given, the base from which the offsets are measured; so consecutive offset fields
    differ by \<open>align\<close> of the size of the record between them, and the cursor ends
    \<open>align\<close> of the last size after the last record;
  \<^item> \<open>align x\<close> is \<open>x\<close> rounded up to the next multiple of 64, for every size that
    leaves room for the rounding in 64 bits;
  \<^item> in \<^verbatim>\<open>set_prom_bootparam\<close>, which builds the chain, the base is the address of the
    \<^verbatim>\<open>struct loongson_params\<close> inside the \<^verbatim>\<open>struct boot_params\<close>, the first record starts
    \<open>align\<close> of the size of \<^verbatim>\<open>struct boot_params\<close> after the start of that struct, and
    the offsets handed to the guest are the starts of the seven records minus that
    base; the first offset is therefore the aligned size of \<^verbatim>\<open>struct boot_params\<close> minus
    the offset of the \<^verbatim>\<open>struct loongson_params\<close> in it.
\<close>

theorem init_loongson_params_chain:
  assumes probe: "get_host_cpu_freq (cpuinfo h) \<noteq> None"
  shows "(\<exists>l' st' c.
     init_loongson_params h cpus lp_addr l st = (Inr l', st')
     \<and> chain st' = chain st @
         [(boot_params_p st,
             MemoryMap (init_memory_map (loaderparams st) zero_efi_memory_map_loongson)),
          (boot_params_p st + align (sizeof_efi_memory_map_loongson (host_abi h)),
             CpuInfo c),
          (boot_params_p st + align (sizeof_efi_memory_map_loongson (host_abi h))
             + align (sizeof_efi_cpuinfo_loongson (host_abi h)),
             SystemInfo (init_system_loongson zero_system_loongson)),
          (boot_params_p st + align (sizeof_efi_memory_map_loongson (host_abi h))
             + align (sizeof_efi_cpuinfo_loongson (host_abi h))
             + align (sizeof_system_loongson (host_abi h)),
             IrqSource (init_irq_source zero_irq_source_routing_table)),
          (boot_params_p st + align (sizeof_efi_memory_map_loongson (host_abi h))
             + align (sizeof_efi_cpuinfo_loongson (host_abi h))
             + align (sizeof_system_loongson (host_abi h))
             + align (sizeof_irq_source_routing_table (host_abi h)),
             InterfaceInfo (init_interface_info zero_interface_info)),
          (boot_params_p st + align (sizeof_efi_memory_map_loongson (host_abi h))
             + align (sizeof_efi_cpuinfo_loongson (host_abi h))
             + align (sizeof_system_loongson (host_abi h))
             + align (sizeof_irq_source_routing_table (host_abi h))
             + align (sizeof_interface_info (host_abi h)),
             BoardDevices (board_devices_info zero_board_devices)),
          (boot_params_p st + align (sizeof_efi_memory_map_loongson (host_abi h))
             + align (sizeof_efi_cpuinfo_loongson (host_abi h))
             + align (sizeof_system_loongson (host_abi h))
             + align (sizeof_irq_source_routing_table (host_abi h))
             + align (sizeof_interface_info (host_abi h))
             + align (sizeof_board_devices (host_abi h)),
             SpecialAttribute (init_special_info zero_loongson_special_attribute))]
     \<and> map (\<lambda>(a, r). a - lp_addr) (drop (length (chain st)) (chain st')) =
         [memory_offset l', cpu_offset l', system_offset l', irq_offset l',
          interface_offset l', boarddev_table_offset l', special_offset l']
     \<and> cpu_offset l' - memory_offset l' = align (sizeof_efi_memory_map_loongson (host_abi h))
     \<and> system_offset l' - cpu_offset l' = align (sizeof_efi_cpuinfo_loongson (host_abi h))
     \<and> irq_offset l' - system_offset l' = align (sizeof_system_loongson (host_abi h))
     \<and> interface_offset l' - irq_offset l'
          = align (sizeof_irq_source_routing_table (host_abi h))
     \<and> boarddev_table_offset l' - interface_offset l'
          = align (sizeof_interface_info (host_abi h))
     \<and> special_offset l' - boarddev_table_offset l'
          = align (sizeof_board_devices (host_abi h))
     \<and> boot_params_p st' = special_offset l' + lp_addr
          + align (sizeof_loongson_special_attribute (host_abi h)))
   \<and> (\<forall>x. unat x + 63 < 2 ^ 64 \<longrightarrow>
          unat (align x) = ((unat x + 63) div 64) * 64
          \<and> 64 dvd unat (align x) \<and> unat x \<le> unat (align x)
          \<and> unat (align x) < unat x + 64)
   \<and> (\<exists>st' pb.
          set_prom_bootparam h cpus initrd_offset initrd_size st = (Inr 0, st')
        \<and> events st' = events st @
            [RomAddBlobFixed ''params'' (ParamsBlob pb) 0x100000 BOOTPARAM_PHYADDR]
        \<and> boot_params_buf st' = g_malloc0 h + word_of_int (bp_at pb)
        \<and> length (records pb) = 7
        \<and> fst (records pb ! 0)
            = boot_params_buf st' + align (sizeof_boot_params (host_abi h))
        \<and> map (\<lambda>(a, r). a - (boot_params_buf st' + offsetof_lp (host_abi h)))
              (records pb) =
            [memory_offset (lp (smbios (efi (bp pb)))),
             cpu_offset (lp (smbios (efi (bp pb)))),
             system_offset (lp (smbios (efi (bp pb)))),
             irq_offset (lp (smbios (efi (bp pb)))),
             interface_offset (lp (smbios (efi (bp pb)))),
             boarddev_table_offset (lp (smbios (efi (bp pb)))),
             special_offset (lp (smbios (efi (bp pb))))]
        \<and> memory_offset (lp (smbios (efi (bp pb))))
            = align (sizeof_boot_params (host_abi h)) - offsetof_lp (host_abi h))"
proof (intro conjI)
  from probe obtain c
    where c: "init_cpu_info (cpuinfo h) cpus zero_efi_cpuinfo_loongson = Some c"
    using init_cpu_info_Some by blast
  show "\<exists>l' st' c.
     init_loongson_params h cpus lp_addr l st = (Inr l', st')
     \<and> chain st' = chain st @
         [(boot_params_p st,
             MemoryMap (init_memory_map (loaderparams st) zero_efi_memory_map_loongson)),
          (boot_params_p st + align (sizeof_efi_memory_map_loongson (host_abi h)),
             CpuInfo c),
          (boot_params_p st + align (sizeof_efi_memory_map_loongson (host_abi h))
             + align (sizeof_efi_cpuinfo_loongson (host_abi h)),
             SystemInfo (init_system_loongson zero_system_loongson)),
          (boot_params_p st + align (sizeof_efi_memory_map_loongson (host_abi h))
             + align (sizeof_efi_cpuinfo_loongson (host_abi h))
             + align (sizeof_system_loongson (host_abi h)),
             IrqSource (init_irq_source zero_irq_source_routing_table)),
          (boot_params_p st + align (sizeof_efi_memory_map_loongson (host_abi h))
             + align (sizeof_efi_cpuinfo_loongson (host_abi h))
             + align (sizeof_system_loongson (host_abi h))
             + align (sizeof_irq_source_routing_table (host_abi h)),
             InterfaceInfo (init_interface_info zero_interface_info)),
          (boot_params_p st + align (sizeof_efi_memory_map_loongson (host_abi h))
             + align (sizeof_efi_cpuinfo_loongson (host_abi h))
             + align (sizeof_system_loongson (host_abi h))
             + align (sizeof_irq_source_routing_table (host_abi h))
             + align (sizeof_interface_info (host_abi h)),
             BoardDevices (board_devices_info zero_board_devices)),
          (boot_params_p st + align (sizeof_efi_memory_map_loongson (host_abi h))
             + align (sizeof_efi_cpuinfo_loongson (host_abi h))
             + align (sizeof_system_loongson (host_abi h))
             + align (sizeof_irq_source_routing_table (host_abi h))
             + align (sizeof_interface_info (host_abi h))
             + align (sizeof_board_devices (host_abi h)),
             SpecialAttribute (init_special_info zero_loongson_special_attribute))]
     \<and> map (\<lambda>(a, r). a - lp_addr) (drop (length (chain st)) (chain st')) =
         [memory_offset l', cpu_offset l', system_offset l', irq_offset l',
          interface_offset l', boarddev_table_offset l', special_offset l']
     \<and> cpu_offset l' - memory_offset l' = align (sizeof_efi_memory_map_loongson (host_abi h))
     \<and> system_offset l' - cpu_offset l' = align (sizeof_efi_cpuinfo_loongson (host_abi h))
     \<and> irq_offset l' - system_offset l' = align (sizeof_system_loongson (host_abi h))
     \<and> interface_offset l' - irq_offset l'
          = align (sizeof_irq_source_routing_table (host_abi h))
     \<and> boarddev_table_offset l' - interface_offset l'
          = align (sizeof_interface_info (host_abi h))
     \<and> special_offset l' - boarddev_table_offset l'
          = align (sizeof_board_devices (host_abi h))
     \<and> boot_params_p st' = special_offset l' + lp_addr
          + align (sizeof_loongson_special_attribute (host_abi h))"
    by (simp add: init_loongson_params_def Let_def c)
next
  show "\<forall>x. unat x + 63 < 2 ^ 64 \<longrightarrow>
          unat (align x) = ((unat x + 63) div 64) * 64
          \<and> 64 dvd unat (align x) \<and> unat x \<le> unat (align x)
          \<and> unat (align x) < unat x + 64"
    using align_round_up by blast
next
  show "\<exists>st' pb.
          set_prom_bootparam h cpus initrd_offset initrd_size st = (Inr 0, st')
        \<and> events st' = events st @
            [RomAddBlobFixed ''params'' (ParamsBlob pb) 0x100000 BOOTPARAM_PHYADDR]
        \<and> boot_params_buf st' = g_malloc0 h + word_of_int (bp_at pb)
        \<and> length (records pb) = 7
        \<and> fst (records pb ! 0)
            = boot_params_buf st' + align (sizeof_boot_params (host_abi h))
        \<and> map (\<lambda>(a, r). a - (boot_params_buf st' + offsetof_lp (host_abi h)))
              (records pb) =
            [memory_offset (lp (smbios (efi (bp pb)))),
             cpu_offset (lp (smbios (efi (bp pb)))),
             system_offset (lp (smbios (efi (bp pb)))),
             irq_offset (lp (smbios (efi (bp pb)))),
             interface_offset (lp (smbios (efi (bp pb)))),
             boarddev_table_offset (lp (smbios (efi (bp pb)))),
             special_offset (lp (smbios (efi (bp pb))))]
        \<and> memory_offset (lp (smbios (efi (bp pb))))
            = align (sizeof_boot_params (host_abi h)) - offsetof_lp (host_abi h)"
    unfolding set_prom_bootparam_def Let_def
    by (auto simp add: snprintf_def split: prod.splits sum.splits
        dest!: init_boot_param_built [OF probe])
qed


theorem init_loongson_params_chain_witness:
  "get_host_cpu_freq (cpuinfo (example_host OpenFails 0x2000000)) \<noteq> None
   \<and> (\<exists>l' st'.
        init_loongson_params (example_host OpenFails 0x2000000) 2 0x7f0000000068
          \<lparr>memory_offset = 0, cpu_offset = 0, system_offset = 0, irq_offset = 0,
           interface_offset = 0, special_offset = 0, boarddev_table_offset = 0\<rparr>
          (initial_state\<lparr>boot_params_p := 0x7f0000000100\<rparr>) = (Inr l', st')
        \<and> memory_offset l' = 152
        \<and> cpu_offset l' - memory_offset l' = 3136)
   \<and> unat (3082 :: u64) + 63 < 2 ^ 64
   \<and> unat (align 3082) = 3136
   \<and> (\<exists>st' pb.
        set_prom_bootparam (example_host OpenFails 0x2000000) 2 0 0
          (initial_state\<lparr>boot_params_p := 0x7f0000000100\<rparr>) = (Inr 0, st')
        \<and> events st' =
            [RomAddBlobFixed ''params'' (ParamsBlob pb) 0x100000 BOOTPARAM_PHYADDR]
        \<and> memory_offset (lp (smbios (efi (bp pb)))) = 152)"
proof -
  let ?h = "example_host OpenFails 0x2000000"
  let ?st = "initial_state\<lparr>boot_params_p := 0x7f0000000100\<rparr>"
  have p: "get_host_cpu_freq (cpuinfo ?h) \<noteq> None"
    by (simp add: example_host_def get_host_cpu_freq_def)
  note t = init_loongson_params_chain [OF p, of 2 "0x7f0000000068"
      "\<lparr>memory_offset = 0, cpu_offset = 0, system_offset = 0, irq_offset = 0,
        interface_offset = 0, special_offset = 0, boarddev_table_offset = 0\<rparr>" ?st 0 0]
  from t have a: "\<exists>l' st'.
        init_loongson_params ?h 2 0x7f0000000068
          \<lparr>memory_offset = 0, cpu_offset = 0, system_offset = 0, irq_offset = 0,
           interface_offset = 0, special_offset = 0, boarddev_table_offset = 0\<rparr>
          ?st = (Inr l', st')
        \<and> memory_offset l' = 152
        \<and> cpu_offset l' - memory_offset l' = 3136"
    by (clarsimp simp add: example_host_def lp64_abi_def align_def initial_state_def)
  have s: "unat (3082 :: u64) + 63 < 2 ^ 64" by simp
  from t have "\<forall>x :: u64. unat x + 63 < 2 ^ 64 \<longrightarrow>
          unat (align x) = ((unat x + 63) div 64) * 64" by blast
  with s have b: "unat (align 3082) = 3136" by simp
  from t have c: "\<exists>st' pb.
        set_prom_bootparam ?h 2 0 0 ?st = (Inr 0, st')
        \<and> events st' =
            [RomAddBlobFixed ''params'' (ParamsBlob pb) 0x100000 BOOTPARAM_PHYADDR]
        \<and> memory_offset (lp (smbios (efi (bp pb)))) = 152"
    by (clarsimp simp add: example_host_def lp64_abi_def align_def initial_state_def)
  show ?thesis using p a s b c by blast
qed

lemma init_loongson_params_returns:
  assumes "get_host_cpu_freq (cpuinfo h) \<noteq> None"
  shows "\<exists>l' st'. init_loongson_params h cpus a l st = (Inr l', st')
           \<and> loaderparams st' = loaderparams st \<and> environ st' = environ st
           \<and> events st' = events st"
proof -
  from assms obtain c
    where "init_cpu_info (cpuinfo h) cpus zero_efi_cpuinfo_loongson = Some c"
    using init_cpu_info_Some by blast
  then show ?thesis by (simp add: init_loongson_params_def Let_def)
qed

lemma init_boot_param_returns:
  assumes "get_host_cpu_freq (cpuinfo h) \<noteq> None"
  shows "\<exists>b' st'. init_boot_param h cpus a b st = (Inr b', st')
           \<and> loaderparams st' = loaderparams st \<and> environ st' = environ st
           \<and> events st' = events st"
proof -
  obtain l' st' where "init_loongson_params h cpus (a + offsetof_lp (host_abi h))
        (lp ((smbios (efi b))\<lparr>sm_vers := 1\<rparr>)) st = (Inr l', st')"
      "loaderparams st' = loaderparams st" "environ st' = environ st"
      "events st' = events st"
    using init_loongson_params_returns [OF assms] by blast
  then show ?thesis
    by (simp add: init_boot_param_def init_efi_def init_smbios_def Let_def)
qed

lemma init_boot_param_defined:
  assumes "get_host_cpu_freq (cpuinfo h) \<noteq> None"
    and "init_boot_param h cpus a b st = (r, st')"
  shows "(\<exists>b'. r = Inr b') \<and> loaderparams st' = loaderparams st
         \<and> environ st' = environ st \<and> events st' = events st"
  using init_boot_param_returns [OF assms(1), of cpus a b st] assms(2) by auto

lemma init_loongson_params_undefined:
  assumes "get_host_cpu_freq (cpuinfo h) = None"
  shows "\<exists>st'. init_loongson_params h cpus a l st = (Inl Undefined, st')
           \<and> loaderparams st' = loaderparams st \<and> events st' = events st"
  using assms by (simp add: init_loongson_params_def Let_def init_cpu_info_def)

lemma init_boot_param_undefined:
  assumes "get_host_cpu_freq (cpuinfo h) = None"
  shows "\<exists>st'. init_boot_param h cpus a b st = (Inl Undefined, st')
           \<and> loaderparams st' = loaderparams st \<and> events st' = events st"
proof -
  obtain st' where "init_loongson_params h cpus (a + offsetof_lp (host_abi h))
        (lp ((smbios (efi b))\<lparr>sm_vers := 1\<rparr>)) st = (Inl Undefined, st')"
      "loaderparams st' = loaderparams st" "events st' = events st"
    using init_loongson_params_undefined [OF assms] by blast
  then show ?thesis
    by (simp add: init_boot_param_def init_efi_def init_smbios_def Let_def)
qed

lemma init_boot_param_undefined_dest:
  assumes "get_host_cpu_freq (cpuinfo h) = None"
    and "init_boot_param h cpus a b st = (r, st')"
  shows "r = Inl Undefined \<and> loaderparams st' = loaderparams st \<and> events st' = events st"
  using init_boot_param_undefined [OF assms(1), of cpus a b st] assms(2) by auto

section \<open>The events of the loader\<close>

lemma events_init_loongson_params:
  "init_loongson_params h cpus a l st = (r, st') \<Longrightarrow> events st' = events st"
  by (auto simp add: init_loongson_params_def Let_def split: option.splits)

lemma events_init_boot_param:
  "init_boot_param h cpus a b st = (r, st') \<Longrightarrow> events st' = events st"
  by (auto simp add: init_boot_param_def init_efi_def init_smbios_def Let_def
      split: prod.splits sum.splits dest: events_init_loongson_params)

lemma events_set_prom_bootparam:
  "set_prom_bootparam h cpus off sz st = (r, st') \<Longrightarrow> \<exists>es. events st' = events st @ es"
  unfolding set_prom_bootparam_def Let_def
  by (auto split: prod.splits sum.splits dest!: events_init_boot_param)

lemma events_load_initrd:
  "load_initrd h ram hi rf st = (r, st') \<Longrightarrow> \<exists>es. events st' = events st @ es"
  by (auto simp add: load_initrd_def Let_def split: if_splits)

lemma events_load_kernel:
  "load_kernel h cpus ram st = (r, st') \<Longrightarrow> \<exists>es. events st' = events st @ es"
proof (cases "kernel_filename (loaderparams st)")
  case None
  assume "load_kernel h cpus ram st = (r, st')"
  with None show ?thesis by (simp add: load_kernel_def)
next
  case (Some kf)
  assume lk: "load_kernel h cpus ram st = (r, st')"
  obtain ksz ke kl kh where elf: "load_elf h kf = (ksz, ke, kl, kh)"
    by (cases "load_elf h kf") auto
  let ?st1 = "st\<lparr>events := events st @ [LoadElf kf]\<rparr>"
  show ?thesis
  proof (cases "ksz <s 0")
    case True
    with lk Some elf show ?thesis by (auto simp add: load_kernel_def)
  next
    case False
    obtain q st2 where q: "(case initrd_filename (loaderparams ?st1) of
                       None \<Rightarrow> (Inr (0, 0), ?st1)
                     | Some rf \<Rightarrow> load_initrd h ram kh rf ?st1) = (q, st2)"
      by (cases "(case initrd_filename (loaderparams ?st1) of
                       None \<Rightarrow> (Inr (0, 0), ?st1)
                     | Some rf \<Rightarrow> load_initrd h ram kh rf ?st1)") auto
    then obtain es2 where es2: "events st2 = events ?st1 @ es2"
      by (cases "initrd_filename (loaderparams ?st1)") (auto dest: events_load_initrd)
    show ?thesis
    proof (cases q)
      case (Inl x)
      with lk Some elf False q es2 show ?thesis
        by (auto simp add: load_kernel_def)
    next
      case (Inr os)
      obtain off sz where os: "os = (off, sz)" by (cases os) auto
      obtain r3 st3 where r3: "set_prom_bootparam h cpus off sz st2 = (r3, st3)"
        by (cases "set_prom_bootparam h cpus off sz st2") auto
      then obtain es3 where es3: "events st3 = events st2 @ es3"
        by (auto dest: events_set_prom_bootparam)
      from lk Some elf False q Inr os r3 have "st' = st3"
        by (auto simp add: load_kernel_def split: sum.splits)
      with es2 es3 show ?thesis by simp
    qed
  qed
qed

lemma events_fw_conf_init:
  "fw_conf_init h cpus ram st = (r, st') \<Longrightarrow> \<exists>es. events st' = events st @ es"
  by (auto simp add: fw_conf_init_def Let_def split: option.splits)

section \<open>The boot with 512 MiB and no ram-disk\<close>

lemma fmt_ld_256: "fmt_ld 256 = ''256''"
  by (simp add: fmt_ld_def)

lemma memenv_512M:
  assumes "ram_size lparams = 0x20000000"
  shows "fmt_ld (sint (if ram_size lparams > 0x10000000 then 256
                       else drop_bit 20 (ram_size lparams))) = ''256''"
  using assms by (simp add: fmt_ld_256)

lemma highmemenv_512M:
  assumes "ram_size lparams = 0x20000000"
  shows "fmt_ld (sint (if ram_size lparams > 0x10000000
                       then drop_bit 20 (ram_size lparams) - 256 else 0)) = ''256''"
  using assms by (simp add: fmt_ld_256 drop_bit_eq_div)

lemma set_prom_bootparam_512M:
  assumes probe: "get_host_cpu_freq (cpuinfo h) \<noteq> None"
    and ram: "ram_size (loaderparams st) = 0x20000000"
  shows "\<exists>st'. set_prom_bootparam h cpus 0 0 st = (Inr 0, st')
     \<and> environ st' ''memsize'' = Some ''256''
     \<and> environ st' ''highmemsize'' = Some ''256''
     \<and> loaderparams st' = (loaderparams st)
          \<lparr>a0 := 2, a1 := 0xffffffff8ff00000,
           a2 := 0xffffffff8ff00000
                 + word_of_int ((19 + int (length (kernel_cmdline (loaderparams st))) + 32)
                                  AND NOT 31)\<rparr>"
  unfolding set_prom_bootparam_def Let_def memenv_512M [OF ram] highmemenv_512M [OF ram]
  by (auto simp add: snprintf_def BOOTPARAM_PHYADDR_def
      split: prod.splits sum.splits dest!: init_boot_param_defined [OF probe])

lemma load_kernel_512M:
  assumes probe: "get_host_cpu_freq (cpuinfo h) \<noteq> None"
    and kf: "kernel_filename (loaderparams st) = Some kf"
    and nrd: "initrd_filename (loaderparams st) = None"
    and ram: "ram_size (loaderparams st) = 0x20000000"
    and elf: "load_elf h kf = (ksize, entry, low, high)" and ks: "\<not> ksize <s 0"
  shows "\<exists>st'. load_kernel h cpus ramsz st = (Inr entry, st')
     \<and> environ st' ''memsize'' = Some ''256''
     \<and> environ st' ''highmemsize'' = Some ''256''
     \<and> loaderparams st' = (loaderparams st)
          \<lparr>a0 := 2, a1 := 0xffffffff8ff00000,
           a2 := 0xffffffff8ff00000
                 + word_of_int ((19 + int (length (kernel_cmdline (loaderparams st))) + 32)
                                  AND NOT 31)\<rparr>"
proof -
  let ?st1 = "st\<lparr>events := events st @ [LoadElf kf]\<rparr>"
  have "ram_size (loaderparams ?st1) = 0x20000000" using ram by simp
  from set_prom_bootparam_512M [OF probe this, of cpus]
  obtain st' where "set_prom_bootparam h cpus 0 0 ?st1 = (Inr 0, st')"
     "environ st' ''memsize'' = Some ''256''"
     "environ st' ''highmemsize'' = Some ''256''"
     "loaderparams st' = (loaderparams ?st1)
          \<lparr>a0 := 2, a1 := 0xffffffff8ff00000,
           a2 := 0xffffffff8ff00000
                 + word_of_int ((19 + int (length (kernel_cmdline (loaderparams ?st1))) + 32)
                                  AND NOT 31)\<rparr>"
    by blast
  then show ?thesis using kf nrd elf ks by (simp add: load_kernel_def)
qed

text \<open>
  The scenario of C7 where the probe of the host's frequency returns: with 512 MiB, a
  kernel that loads and no ram-disk, platform initialisation returns, \<^verbatim>\<open>memsize\<close> and
  \<^verbatim>\<open>highmemsize\<close> are both \<^verbatim>\<open>"256"\<close>, and the reset handler of the boot processor puts 2,
  the virtual address of the parameter block and that address plus the rounded length
  of the command-line blob into registers 4, 5 and 6.
\<close>

lemma boot_512M_no_initrd:
  assumes probe: "get_host_cpu_freq (cpuinfo h) \<noteq> None"
    and ram: "m_ram_size machine = 0x20000000"
    and kf: "m_kernel_filename machine = Some kf"
    and nrd: "m_initrd_filename machine = None"
    and elf: "load_elf h kf = (ksize, entry, low, high)" and ks: "\<not> ksize <s 0"
  shows "\<exists>st'. mips_loongson3_init h machine st = (Inr (), st')
     \<and> environ st' ''memsize'' = Some ''256''
     \<and> environ st' ''highmemsize'' = Some ''256''
     \<and> a0 (loaderparams st') = 2
     \<and> a1 (loaderparams st') = 0xffffffff80000000 + BOOTPARAM_PHYADDR
     \<and> a2 (loaderparams st') = a1 (loaderparams st')
          + word_of_int ((19 + int (length (m_kernel_cmdline machine)) + 32) AND NOT 31)
     \<and> kernel_entry (loaderparams st') = entry
     \<and> kernel_filename (loaderparams st') = Some kf"
proof -
  let ?st0 = "st\<lparr>events := events st @ create_cpus (unat (smp_cpus machine))\<rparr>"
  let ?st1 = "?st0\<lparr>events := events ?st0 @
                   [MemoryRegionInit ''loongson3.bios'',
                    MemoryRegionInit ''loongson3.lowram'',
                    MemoryRegionInit ''loongson3_pm'',
                    MemoryRegionAddSubregion ''loongson3.lowram'' 0x00000000,
                    MemoryRegionAddSubregion ''loongson3.bios'' 0x1fc00000,
                    MemoryRegionAddSubregion ''loongson3.highram'' 0x80000000,
                    MemoryRegionAddSubregion ''loongson3_pm'' 0x0e0010080000]\<rparr>"
  let ?st2 = "?st1\<lparr>loaderparams := (loaderparams ?st1)
                           \<lparr>ram_size := m_ram_size machine,
                            kernel_filename := Some kf,
                            kernel_cmdline := m_kernel_cmdline machine,
                            initrd_filename := m_initrd_filename machine\<rparr>\<rparr>"
  have 1: "kernel_filename (loaderparams ?st2) = Some kf" by simp
  have 2: "initrd_filename (loaderparams ?st2) = None" using nrd by simp
  have 3: "ram_size (loaderparams ?st2) = 0x20000000" using ram by simp
  from load_kernel_512M [OF probe 1 2 3 elf ks, of "smp_cpus machine" "m_ram_size machine"]
  obtain st' where
        lk: "load_kernel h (smp_cpus machine) (m_ram_size machine) ?st2 = (Inr entry, st')"
     and e: "environ st' ''memsize'' = Some ''256''"
            "environ st' ''highmemsize'' = Some ''256''"
     and l: "loaderparams st' = (loaderparams ?st2)
          \<lparr>a0 := 2, a1 := 0xffffffff8ff00000,
           a2 := 0xffffffff8ff00000
                 + word_of_int ((19 + int (length (kernel_cmdline (loaderparams ?st2))) + 32)
                                  AND NOT 31)\<rparr>"
    by blast
  have nlt: "\<not> m_ram_size machine < 256 * 0x100000" using ram by simp
  have "mips_loongson3_init h machine st =
     (Inr (), init_buses h
        (st'\<lparr>loaderparams := (loaderparams st')\<lparr>kernel_entry := entry\<rparr>,
             events := events st' @ [RomAddBlobFixed ''bios'' BiosBootCode
                                      (sizeof_bios_boot_code (host_abi h)) 0x1fc00000]\<rparr>))"
    unfolding mips_loongson3_init_def Let_def using nlt kf lk by simp
  then show ?thesis using e l by (simp add: init_buses_def BOOTPARAM_PHYADDR_def)
qed

lemma boot_cpu_registers:
  assumes "kernel_filename lparams = Some kf" and "first_cpu < length cpus"
    and "length (gpr (cpu_reset (cpus ! first_cpu))) = 32"
  shows "gpr (main_cpu_reset cpu_reset lparams first_cpu first_cpu cpus ! first_cpu) ! 4
           = a0 lparams
       \<and> gpr (main_cpu_reset cpu_reset lparams first_cpu first_cpu cpus ! first_cpu) ! 5
           = a1 lparams
       \<and> gpr (main_cpu_reset cpu_reset lparams first_cpu first_cpu cpus ! first_cpu) ! 6
           = a2 lparams"
  using assms by (simp add: main_cpu_reset_def Let_def)

lemma set_prom_bootparam_undefined:
  assumes probe: "get_host_cpu_freq (cpuinfo h) = None"
  shows "\<exists>st'. set_prom_bootparam h cpus off sz st = (Inl Undefined, st')
           \<and> loaderparams st' = loaderparams st \<and> events st' = events st"
  unfolding set_prom_bootparam_def Let_def
  by (auto simp add: snprintf_def split: prod.splits sum.splits
      dest!: init_boot_param_undefined_dest [OF probe])

lemma load_kernel_undefined:
  assumes probe: "get_host_cpu_freq (cpuinfo h) = None"
    and kf: "kernel_filename (loaderparams st) = Some kf"
    and nrd: "initrd_filename (loaderparams st) = None"
    and elf: "load_elf h kf = (ksize, entry, low, high)" and ks: "\<not> ksize <s 0"
  shows "\<exists>st'. load_kernel h cpus ramsz st = (Inl Undefined, st')
           \<and> loaderparams st' = loaderparams st \<and> events st' = events st @ [LoadElf kf]"
proof -
  let ?st1 = "st\<lparr>events := events st @ [LoadElf kf]\<rparr>"
  from set_prom_bootparam_undefined [OF probe, of cpus 0 0 ?st1]
  obtain st' where "set_prom_bootparam h cpus 0 0 ?st1 = (Inl Undefined, st')"
    "loaderparams st' = loaderparams ?st1" "events st' = events ?st1" by blast
  then show ?thesis using kf nrd elf ks by (simp add: load_kernel_def)
qed

text \<open>
  The same scenario on a host where the probe has no defined behaviour: initialisation
  does not return, and the three register values of \<^verbatim>\<open>loaderparams\<close> are never set.
\<close>

lemma boot_probe_undefined:
  assumes probe: "get_host_cpu_freq (cpuinfo h) = None"
    and ram: "\<not> m_ram_size machine < 0x10000000"
    and kf: "m_kernel_filename machine = Some kf"
    and nrd: "m_initrd_filename machine = None"
    and elf: "load_elf h kf = (ksize, entry, low, high)" and ks: "\<not> ksize <s 0"
  shows "\<exists>st'. mips_loongson3_init h machine st = (Inl Undefined, st')
     \<and> a0 (loaderparams st') = a0 (loaderparams st)
     \<and> a1 (loaderparams st') = a1 (loaderparams st)
     \<and> a2 (loaderparams st') = a2 (loaderparams st)"
proof -
  let ?st0 = "st\<lparr>events := events st @ create_cpus (unat (smp_cpus machine))\<rparr>"
  let ?st1 = "?st0\<lparr>events := events ?st0 @
                   [MemoryRegionInit ''loongson3.bios'',
                    MemoryRegionInit ''loongson3.lowram'',
                    MemoryRegionInit ''loongson3_pm'',
                    MemoryRegionAddSubregion ''loongson3.lowram'' 0x00000000,
                    MemoryRegionAddSubregion ''loongson3.bios'' 0x1fc00000,
                    MemoryRegionAddSubregion ''loongson3.highram'' 0x80000000,
                    MemoryRegionAddSubregion ''loongson3_pm'' 0x0e0010080000]\<rparr>"
  let ?st2 = "?st1\<lparr>loaderparams := (loaderparams ?st1)
                           \<lparr>ram_size := m_ram_size machine,
                            kernel_filename := Some kf,
                            kernel_cmdline := m_kernel_cmdline machine,
                            initrd_filename := m_initrd_filename machine\<rparr>\<rparr>"
  have 1: "kernel_filename (loaderparams ?st2) = Some kf" by simp
  have 2: "initrd_filename (loaderparams ?st2) = None" using nrd by simp
  from load_kernel_undefined [OF probe 1 2 elf ks, of "smp_cpus machine" "m_ram_size machine"]
  obtain st' where
        lk: "load_kernel h (smp_cpus machine) (m_ram_size machine) ?st2 = (Inl Undefined, st')"
     and l: "loaderparams st' = loaderparams ?st2"
    by blast
  have nlt: "\<not> m_ram_size machine < 256 * 0x100000" using ram by simp
  have "mips_loongson3_init h machine st = (Inl Undefined, st')"
    unfolding mips_loongson3_init_def Let_def using nlt kf lk by simp
  then show ?thesis using l by simp
qed

lemma get_host_cpu_freq_no_model_name:
  "get_host_cpu_freq (ReadBytes ''processor : 0'') = None"
  by (simp add: get_host_cpu_freq_def)

lemma get_host_cpu_freq_loongson:
  "get_host_cpu_freq (ReadBytes ''model name : Loongson @ 1800MHz'') = Some 1800000000"
  by (simp add: get_host_cpu_freq_def Let_def read_buf_def known_digit_def isdigit_def
      atoi_def)

text \<open>
  C7, at an input where the code does not do what the claim says. The machine has
  512 MiB, a kernel that loads and no ram-disk; the host's \<^verbatim>\<open>/proc/cpuinfo\<close> has no
  \<^verbatim>\<open>"model name"\<close> line. \<^verbatim>\<open>get_host_cpu_freq\<close>, reached through \<^verbatim>\<open>init_cpu_info\<close>,
  dereferences the \<^verbatim>\<open>NULL\<close> of \<^verbatim>\<open>strstr\<close>: initialisation does not return, and \<^verbatim>\<open>a0\<close> is
  not 2.
\<close>

theorem boot_512M_probe_failure:
  "fst (mips_loongson3_init (example_host (ReadBytes ''processor : 0'') 0) example_machine
          initial_state) = Inl Undefined
   \<and> a0 (loaderparams (snd (mips_loongson3_init
          (example_host (ReadBytes ''processor : 0'') 0) example_machine initial_state))) \<noteq> 2"
proof -
  have p: "get_host_cpu_freq (cpuinfo (example_host (ReadBytes ''processor : 0'') 0)) = None"
    by (simp add: example_host_def get_host_cpu_freq_no_model_name)
  from boot_probe_undefined [OF p, of example_machine "''vmlinux''" "0x800000"
      "0xffffffff80200000" "0x200000" "0xa00000" initial_state]
  show ?thesis
    by (auto simp add: example_machine_def example_host_def initial_state_def
        word_sless_alt)
qed


section \<open>The placement of the ram-disk\<close>

lemma initrd_page_mask_eq: "INITRD_PAGE_MASK k = NOT (mask k)"
  by (simp add: INITRD_PAGE_MASK_def mask_eq_exp_minus_1)

lemma align_up_least:
  fixes h m n :: nat
  assumes "0 < m" "m dvd n" "h \<le> n"
  shows "((h + (m - 1)) div m) * m \<le> n"
proof -
  from assms obtain j where n: "n = m * j" by (auto simp: dvd_def)
  have "(h + (m - 1)) div m \<le> (m * j + (m - 1)) div m"
    using assms n by (intro div_le_mono) simp
  also have "\<dots> = ((m - 1) + j * m) div m" by (simp add: ac_simps)
  also have "\<dots> = j + (m - 1) div m" using assms by (simp only: div_mult_self1)
  also have "\<dots> = j" using assms by simp
  finally have "(h + (m - 1)) div m \<le> j" .
  then have "((h + (m - 1)) div m) * m \<le> j * m" by (rule mult_le_mono1)
  then show ?thesis unfolding n by (simp only: mult.commute)
qed

lemma sless_pos_unat:
  assumes "0 <s (w :: u64)"
  shows "unat w < 2 ^ 63"
proof -
  have "0 < sint w" using assms by (simp add: word_sless_alt)
  then have nb: "\<not> bit w 63" using bit_last_iff [of w] by simp
  have "unat w < 2 ^ 64" using unsigned_less [of w] by simp
  then have q2: "unat w div 2 ^ 63 < 2" by (simp add: less_mult_imp_div_less)
  have "bit (unat w) 63 \<longleftrightarrow> bit w 63" by (simp add: bit_unsigned_iff)
  then have ev: "even (unat w div 2 ^ 63)" using nb by (simp add: bit_iff_odd)
  define q where "q = unat w div 2 ^ 63"
  have "q < 2" "even q" using q2 ev by (simp_all add: q_def)
  then have "q = 0" by (cases q) auto
  then show ?thesis by (simp add: q_def div_eq_0_iff)
qed

lemma initrd_offset_dvd: "k \<le> 17 \<Longrightarrow> (2::nat) ^ k dvd 65667072"
proof -
  assume "k \<le> 17"
  then have "(2::nat) ^ k dvd 2 ^ 17" by (rule le_imp_power_dvd)
  moreover have "(2::nat) ^ 17 dvd 65667072" by simp
  ultimately show ?thesis by (rule dvd_trans)
qed

lemma unat_mask_64: "k < 64 \<Longrightarrow> unat (mask k :: u64) = 2 ^ k - 1"
proof -
  assume k: "k < 64"
  have "uint (mask k :: u64) = mask (min 64 k)" by (simp add: uint_mask_eq)
  also have "\<dots> = 2 ^ k - 1" using k by (simp add: mask_eq_exp_minus_1 min_def)
  finally have "uint (mask k :: u64) = 2 ^ k - 1" .
  then have "int (unat (mask k :: u64)) = 2 ^ k - 1" by simp
  then show ?thesis by (simp add: of_nat_diff nat_eq_iff nat_int_comparison(1))
qed

lemma unat_MAX_macro: "unat (MAX_macro a b) = max (unat a) (unat b)"
  by (auto simp add: MAX_macro_def word_less_nat_alt max_def)

lemma unat_initrd_offset:
  fixes high :: u64
  assumes k: "k \<le> 17" and hi: "high \<le> 2 ^ 62"
  shows "unat (MAX_macro ((high + NOT (INITRD_PAGE_MASK k)) AND INITRD_PAGE_MASK k)
                 INITRD_OFFSET)
           = max (((unat high + (2 ^ k - 1)) div 2 ^ k) * 2 ^ k) 65667072"
proof -
  have k64: "k < 64" using k by simp
  have h: "unat high \<le> 2 ^ 62" using hi by (simp add: word_le_nat_alt)
  have "(2::nat) ^ k \<le> 2 ^ 17" by (rule power_increasing) (use k in simp_all)
  then have m: "(2::nat) ^ k - 1 < 2 ^ 17" by simp
  have "unat high + unat (mask k :: u64) < 2 ^ 64"
    using h m by (simp add: unat_mask_64 [OF k64])
  then have "unat (high + mask k) = unat high + unat (mask k :: u64)"
    by (simp add: unat_add_lem [THEN iffD1])
  then have s: "unat (high + mask k) = unat high + (2 ^ k - 1)"
    by (simp add: unat_mask_64 [OF k64])
  show ?thesis
    by (simp add: unat_MAX_macro initrd_page_mask_eq unat_and_not_mask s INITRD_OFFSET_def)
qed

lemma initrd_fit_test:
  fixes off sz ram :: u64
  assumes "unat off < 2 ^ 63" "unat sz < 2 ^ 63"
  shows "off + sz > ram \<longleftrightarrow> unat ram < unat off + unat sz"
proof -
  have "unat off + unat sz < 2 ^ 64" using assms by simp
  then have "unat (off + sz) = unat off + unat sz" by (simp add: unat_add_lem [THEN iffD1])
  then show ?thesis by (simp add: word_less_nat_alt)
qed

lemma load_kernel_with_initrd:
  assumes "kernel_filename (loaderparams st) = Some kf"
    and "initrd_filename (loaderparams st) = Some rf"
    and "load_elf h kf = (ksize, entry, low, high)" and "\<not> ksize <s 0"
  shows "load_kernel h cpus ram st =
    (case load_initrd h ram high rf (st\<lparr>events := events st @ [LoadElf kf]\<rparr>) of
       (Inl x, st') \<Rightarrow> (Inl x, st')
     | (Inr (off, sz), st') \<Rightarrow>
        (case set_prom_bootparam h cpus off sz st' of
           (Inl x, st'') \<Rightarrow> (Inl x, st'')
         | (Inr r, st'') \<Rightarrow> (Inr entry, st'')))"
  using assms by (simp add: load_kernel_def)

text \<open>
  C8. With a kernel that loads (its highest address at most \<open>2 ^ 62\<close>), a ram-disk
  image of positive size and a ram-disk page of \<open>2 ^ k\<close> bytes, \<open>k \<le> 17\<close>: the offset
  \<open>off\<close> chosen for the ram-disk is page-aligned, at or above the kernel's highest
  address and \<^verbatim>\<open>INITRD_OFFSET\<close>, and below every other such address. If \<open>off\<close> plus the
  image size exceeds the RAM size, \<^verbatim>\<open>load_kernel\<close> stops with the message that names the
  ram-disk file, and all it has done is load the kernel: no image is loaded, no
  parameter blob is added, no global is written. Otherwise the image is loaded at
  \<open>off\<close>.
\<close>

theorem load_kernel_initrd_placement:
  assumes k: "initrd_page_bits h \<le> 17"
    and kf: "kernel_filename (loaderparams st) = Some kf"
    and rf: "initrd_filename (loaderparams st) = Some rf"
    and elf: "load_elf h kf = (ksize, entry, low, high)" and ks: "\<not> ksize <s 0"
    and sz: "0 <s get_image_size h rf"
    and hi: "high \<le> 2 ^ 62"
  shows "\<exists>off.
      off AND mask (initrd_page_bits h) = 0 \<and> high \<le> off \<and> INITRD_OFFSET \<le> off
    \<and> (\<forall>a. a AND mask (initrd_page_bits h) = 0 \<and> high \<le> a \<and> INITRD_OFFSET \<le> a
           \<longrightarrow> off \<le> a)
    \<and> (unat ram < unat off + unat (get_image_size h rf) \<longrightarrow>
          load_kernel h cpus ram st =
            (Inl (Exit (''memory too small for initial ram disk ''
                         @ [CHR 0x27] @ rf @ [CHR 0x27])),
             st\<lparr>events := events st @ [LoadElf kf]\<rparr>))
    \<and> (unat off + unat (get_image_size h rf) \<le> unat ram \<longrightarrow>
          (\<exists>es. events (snd (load_kernel h cpus ram st)) =
             events st @ [LoadElf kf, LoadImageTargphys rf off (ram - off)] @ es))"
proof -
  let ?k = "initrd_page_bits h"
  let ?m = "(2::nat) ^ ?k"
  let ?sz = "get_image_size h rf"
  let ?st1 = "st\<lparr>events := events st @ [LoadElf kf]\<rparr>"
  define off
    where "off = MAX_macro ((high + NOT (INITRD_PAGE_MASK ?k)) AND INITRD_PAGE_MASK ?k)
                   INITRD_OFFSET"
  let ?c = "((unat high + (?m - 1)) div ?m) * ?m"
  have uoff: "unat off = max ?c 65667072"
    unfolding off_def using k hi by (rule unat_initrd_offset)
  have m0: "0 < ?m" by simp
  have h62: "unat high \<le> 2 ^ 62" using hi by (simp add: word_le_nat_alt)
  have "?m \<le> 2 ^ 17" by (rule power_increasing) (use k in simp_all)
  then have m17: "?m - 1 < 2 ^ 17" by simp
  have c_ge: "unat high \<le> ?c" using m0 by (rule align_up_ge)
  have c_le: "?c \<le> unat high + (?m - 1)" by (rule div_times_less_eq_dividend)
  have dvd_off: "?m dvd unat off"
    unfolding uoff using initrd_offset_dvd [OF k] by (simp add: max_def)
  have a1: "off AND mask ?k = 0" using dvd_off by (simp add: and_mask_dvd_nat)
  have a2: "high \<le> off" using c_ge by (simp add: word_le_nat_alt uoff)
  have a3: "INITRD_OFFSET \<le> off" by (simp add: word_le_nat_alt uoff INITRD_OFFSET_def)
  have a4: "\<forall>a. a AND mask ?k = 0 \<and> high \<le> a \<and> INITRD_OFFSET \<le> a \<longrightarrow> off \<le> a"
  proof (intro allI impI)
    fix a :: u64
    assume a: "a AND mask ?k = 0 \<and> high \<le> a \<and> INITRD_OFFSET \<le> a"
    then have "?m dvd unat a" by (simp add: and_mask_dvd_nat)
    moreover have "unat high \<le> unat a" using a by (simp add: word_le_nat_alt)
    ultimately have "?c \<le> unat a" using m0 by (intro align_up_least)
    moreover have "65667072 \<le> unat a"
      using a by (simp add: word_le_nat_alt INITRD_OFFSET_def)
    ultimately show "off \<le> a" by (simp add: word_le_nat_alt uoff)
  qed
  have "unat high + (?m - 1) < 2 ^ 63" using h62 m17 by simp
  with c_le have "?c < 2 ^ 63" by (rule le_less_trans)
  then have off63: "unat off < 2 ^ 63" unfolding uoff by simp
  have sz63: "unat ?sz < 2 ^ 63" using sz by (rule sless_pos_unat)
  have test: "off + ?sz > ram \<longleftrightarrow> unat ram < unat off + unat ?sz"
    using off63 sz63 by (rule initrd_fit_test)
  have lk: "load_kernel h cpus ram st =
    (case load_initrd h ram high rf ?st1 of
       (Inl x, st') \<Rightarrow> (Inl x, st')
     | (Inr (off, sz), st') \<Rightarrow>
        (case set_prom_bootparam h cpus off sz st' of
           (Inl x, st'') \<Rightarrow> (Inl x, st'')
         | (Inr r, st'') \<Rightarrow> (Inr entry, st'')))"
    using kf rf elf ks by (rule load_kernel_with_initrd)
  have a5: "unat ram < unat off + unat ?sz \<longrightarrow>
          load_kernel h cpus ram st =
            (Inl (Exit (''memory too small for initial ram disk ''
                         @ [CHR 0x27] @ rf @ [CHR 0x27])), ?st1)"
  proof
    assume "unat ram < unat off + unat ?sz"
    then have "off + ?sz > ram" using test by simp
    then have "load_initrd h ram high rf ?st1 =
        (Inl (Exit (''memory too small for initial ram disk ''
                         @ [CHR 0x27] @ rf @ [CHR 0x27])), ?st1)"
      using sz by (simp add: load_initrd_def Let_def off_def)
    then show "load_kernel h cpus ram st =
            (Inl (Exit (''memory too small for initial ram disk ''
                         @ [CHR 0x27] @ rf @ [CHR 0x27])), ?st1)"
      by (simp add: lk)
  qed
  have a6: "unat off + unat ?sz \<le> unat ram \<longrightarrow>
          (\<exists>es. events (snd (load_kernel h cpus ram st)) =
             events st @ [LoadElf kf, LoadImageTargphys rf off (ram - off)] @ es)"
  proof
    assume "unat off + unat ?sz \<le> unat ram"
    then have nt: "\<not> off + ?sz > ram" using test by simp
    let ?st2 = "st\<lparr>events := events st
                   @ [LoadElf kf, LoadImageTargphys rf off (ram - off)]\<rparr>"
    have "snd (load_initrd h ram high rf ?st1) = ?st2"
      using sz nt by (simp add: load_initrd_def Let_def off_def)
    then obtain q where q: "load_initrd h ram high rf ?st1 = (q, ?st2)"
      by (cases "load_initrd h ram high rf ?st1") auto
    show "\<exists>es. events (snd (load_kernel h cpus ram st)) =
             events st @ [LoadElf kf, LoadImageTargphys rf off (ram - off)] @ es"
    proof (cases q)
      case (Inl x)
      then show ?thesis by (simp add: lk q)
    next
      case (Inr os)
      obtain o' s' where os: "os = (o', s')" by (cases os) auto
      obtain r3 st3 where r3: "set_prom_bootparam h cpus o' s' ?st2 = (r3, st3)"
        by (cases "set_prom_bootparam h cpus o' s' ?st2") auto
      then obtain es3 where es3: "events st3 = events ?st2 @ es3"
        by (auto dest: events_set_prom_bootparam)
      have "snd (load_kernel h cpus ram st) = st3"
        using r3 by (cases r3) (simp_all add: lk q Inr os)
      then show ?thesis using es3 by simp
    qed
  qed
  show ?thesis using a1 a2 a3 a4 a5 a6 by blast
qed

theorem load_kernel_initrd_placement_witness:
  "initrd_page_bits (example_host OpenFails 0x10000000) \<le> 17
   \<and> kernel_filename (loaderparams example_loader_state) = Some ''vmlinux''
   \<and> initrd_filename (loaderparams example_loader_state) = Some ''initrd.img''
   \<and> load_elf (example_host OpenFails 0x10000000) ''vmlinux''
       = (0x800000, 0xffffffff80200000, 0x200000, 0xa00000)
   \<and> \<not> (0x800000 :: u64) <s 0
   \<and> 0 <s get_image_size (example_host OpenFails 0x10000000) ''initrd.img''
   \<and> (0xa00000 :: u64) \<le> 2 ^ 62
   \<and> load_kernel (example_host OpenFails 0x10000000) 2 0x10000000 example_loader_state
       = (Inl (Exit (''memory too small for initial ram disk ''
                      @ [CHR 0x27] @ ''initrd.img'' @ [CHR 0x27])),
          example_loader_state\<lparr>events := events example_loader_state
                                           @ [LoadElf ''vmlinux'']\<rparr>)"
proof -
  let ?h = "example_host OpenFails 0x10000000"
  have h1: "initrd_page_bits ?h \<le> 17" by (simp add: example_host_def)
  have h2: "kernel_filename (loaderparams example_loader_state) = Some ''vmlinux''"
    by (simp add: example_loader_state_def)
  have h3: "initrd_filename (loaderparams example_loader_state) = Some ''initrd.img''"
    by (simp add: example_loader_state_def)
  have h4: "load_elf ?h ''vmlinux'' = (0x800000, 0xffffffff80200000, 0x200000, 0xa00000)"
    by (simp add: example_host_def)
  have h5: "\<not> (0x800000 :: u64) <s 0" by (simp add: word_sless_alt)
  have h6: "0 <s get_image_size ?h ''initrd.img''"
    by (simp add: example_host_def word_sless_alt)
  have h7: "(0xa00000 :: u64) \<le> 2 ^ 62" by simp
  from load_kernel_initrd_placement [OF h1 h2 h3 h4 h5 h6 h7, of "0x10000000" 2]
  obtain off :: u64 where
        lo: "INITRD_OFFSET \<le> off"
    and least: "\<forall>a. a AND mask (initrd_page_bits ?h) = 0 \<and> 0xa00000 \<le> a
                     \<and> INITRD_OFFSET \<le> a \<longrightarrow> off \<le> a"
    and big: "unat (0x10000000 :: u64) < unat off + unat (get_image_size ?h ''initrd.img'')
          \<longrightarrow> load_kernel ?h 2 0x10000000 example_loader_state =
            (Inl (Exit (''memory too small for initial ram disk ''
                         @ [CHR 0x27] @ ''initrd.img'' @ [CHR 0x27])),
             example_loader_state\<lparr>events := events example_loader_state
                                              @ [LoadElf ''vmlinux'']\<rparr>)"
    by blast
  have "INITRD_OFFSET AND mask (initrd_page_bits ?h) = 0 \<and> 0xa00000 \<le> INITRD_OFFSET
        \<and> INITRD_OFFSET \<le> INITRD_OFFSET"
    by (simp add: example_host_def INITRD_OFFSET_def mask_eq_exp_minus_1)
  with least have "off \<le> INITRD_OFFSET" by blast
  with lo have off: "off = INITRD_OFFSET" by simp
  have "unat (0x10000000 :: u64) < unat off + unat (get_image_size ?h ''initrd.img'')"
    by (simp add: off example_host_def INITRD_OFFSET_def)
  with big have "load_kernel ?h 2 0x10000000 example_loader_state =
            (Inl (Exit (''memory too small for initial ram disk ''
                         @ [CHR 0x27] @ ''initrd.img'' @ [CHR 0x27])),
             example_loader_state\<lparr>events := events example_loader_state
                                              @ [LoadElf ''vmlinux'']\<rparr>)"
    by blast
  with h1 h2 h3 h4 h5 h6 h7 show ?thesis by blast
qed

section \<open>Reset of the processors\<close>

text \<open>
  C9, as stated, fails: with a kernel loaded, the reset handler of a processor other
  than the boot processor does not leave it in the state its own reset produces.
\<close>

theorem main_cpu_reset_secondary_counterexample:
  "main_cpu_reset example_cpu_reset
     \<lparr>ram_size = 0x20000000, kernel_cmdline = [], kernel_filename = Some ''vmlinux'',
      initrd_filename = None, kernel_entry = 0xffffffff80200000, a0 = 2,
      a1 = 0xffffffff8ff00000, a2 = 0xffffffff8ff00040\<rparr> 0 1
     [example_cpu, example_cpu] ! 1
   \<noteq> example_cpu_reset example_cpu"
  by (simp add: main_cpu_reset_def example_cpu_reset_def example_cpu_def CP0St_BEV_def
      CP0St_ERL_def)

text \<open>
  C9, amended. When a kernel is loaded, the reset handler seeds registers 4, 5 and 6 and
  the program counter of the boot processor only, leaving its other general registers
  as its own reset leaves them. For every other processor the handler gives the state
  of the processor's own reset except that the BEV and ERL bits of the status register
  are cleared; these two bits are cleared for the boot processor as well. The rest of a
  processor's state is as its own reset leaves it, and the handler of one processor
  touches no other processor.
\<close>

theorem main_cpu_reset_frame:
  assumes k: "kernel_filename lparams = Some kf"
    and i: "cpu < length cpus"
    and g: "length (gpr (cpu_reset (cpus ! cpu))) = 32"
  shows "(cpu = first_cpu \<longrightarrow>
            gpr (main_cpu_reset cpu_reset lparams first_cpu cpu cpus ! cpu) ! 4 = a0 lparams
          \<and> gpr (main_cpu_reset cpu_reset lparams first_cpu cpu cpus ! cpu) ! 5 = a1 lparams
          \<and> gpr (main_cpu_reset cpu_reset lparams first_cpu cpu cpus ! cpu) ! 6 = a2 lparams
          \<and> PC (main_cpu_reset cpu_reset lparams first_cpu cpu cpus ! cpu)
              = kernel_entry lparams
          \<and> (\<forall>r < 32. r \<noteq> 4 \<and> r \<noteq> 5 \<and> r \<noteq> 6 \<longrightarrow>
                gpr (main_cpu_reset cpu_reset lparams first_cpu cpu cpus ! cpu) ! r
                  = gpr (cpu_reset (cpus ! cpu)) ! r))
       \<and> (cpu \<noteq> first_cpu \<longrightarrow>
            main_cpu_reset cpu_reset lparams first_cpu cpu cpus ! cpu =
              (cpu_reset (cpus ! cpu))
                \<lparr>CP0_Status := CP0_Status (cpu_reset (cpus ! cpu)) AND NOT 0x400004\<rparr>)
       \<and> CP0_Status (main_cpu_reset cpu_reset lparams first_cpu cpu cpus ! cpu)
            = CP0_Status (cpu_reset (cpus ! cpu)) AND NOT 0x400004
       \<and> CPUMIPSState.more (main_cpu_reset cpu_reset lparams first_cpu cpu cpus ! cpu)
            = CPUMIPSState.more (cpu_reset (cpus ! cpu))
       \<and> (\<forall>j < length cpus. j \<noteq> cpu \<longrightarrow>
            main_cpu_reset cpu_reset lparams first_cpu cpu cpus ! j = cpus ! j)"
  using k i g
  by (auto simp add: main_cpu_reset_def Let_def CP0St_BEV_def CP0St_ERL_def)

theorem main_cpu_reset_frame_witness:
  "kernel_filename \<lparr>ram_size = 0x20000000, kernel_cmdline = [],
      kernel_filename = Some ''vmlinux'', initrd_filename = None,
      kernel_entry = 0xffffffff80200000, a0 = 2, a1 = 0xffffffff8ff00000,
      a2 = 0xffffffff8ff00040\<rparr> = Some ''vmlinux''
   \<and> 1 < length [example_cpu, example_cpu]
   \<and> length (gpr (example_cpu_reset ([example_cpu, example_cpu] ! 1))) = 32
   \<and> main_cpu_reset example_cpu_reset
       \<lparr>ram_size = 0x20000000, kernel_cmdline = [], kernel_filename = Some ''vmlinux'',
        initrd_filename = None, kernel_entry = 0xffffffff80200000, a0 = 2,
        a1 = 0xffffffff8ff00000, a2 = 0xffffffff8ff00040\<rparr> 0 1
       [example_cpu, example_cpu] ! 1
     = \<lparr>gpr = replicate 32 0, PC = 0xffffffffbfc00000, CP0_Status = 0\<rparr>"
  using main_cpu_reset_frame [of
      "\<lparr>ram_size = 0x20000000, kernel_cmdline = [], kernel_filename = Some ''vmlinux'',
        initrd_filename = None, kernel_entry = 0xffffffff80200000, a0 = 2,
        a1 = 0xffffffff8ff00000, a2 = 0xffffffff8ff00040\<rparr>"
      "''vmlinux''" 1 "[example_cpu, example_cpu]" example_cpu_reset 0]
  by (simp add: example_cpu_reset_def example_cpu_def)

section \<open>Platform initialisation\<close>

text \<open>
  C10. With less than 256 MiB of RAM, \<^verbatim>\<open>mips_loongson3_init\<close> stops with its message
  and has created nothing: the state, with its list of events, is the one it started
  from. With at least 256 MiB it goes on: whatever happens later, the processors are
  created, and then the memory regions.
\<close>

theorem mips_loongson3_init_ram_check:
  "(m_ram_size machine < 0x10000000 \<longrightarrow>
      mips_loongson3_init h machine st
        = (Inl (Exit ''Loongson-3 need at least 256MB memory''), st))
   \<and> (0x10000000 \<le> m_ram_size machine \<longrightarrow>
      (\<exists>es. events (snd (mips_loongson3_init h machine st)) =
            events st @ create_cpus (unat (smp_cpus machine))
              @ MemoryRegionInit ''loongson3.bios'' # es))"
proof (intro conjI impI)
  assume "m_ram_size machine < 0x10000000"
  then show "mips_loongson3_init h machine st
        = (Inl (Exit ''Loongson-3 need at least 256MB memory''), st)"
    by (simp add: mips_loongson3_init_def)
next
  assume "0x10000000 \<le> m_ram_size machine"
  then have ge: "\<not> m_ram_size machine < 0x10000000" by (simp add: not_less)
  show "\<exists>es. events (snd (mips_loongson3_init h machine st)) =
            events st @ create_cpus (unat (smp_cpus machine))
              @ MemoryRegionInit ''loongson3.bios'' # es"
  proof (cases "m_kernel_filename machine")
    case (Some kf)
    show ?thesis
      using ge Some
      by (auto simp add: mips_loongson3_init_def Let_def init_buses_def
          split: prod.splits sum.splits dest!: events_load_kernel)
  next
    case None
    show ?thesis
      using ge None
      by (auto simp add: mips_loongson3_init_def Let_def init_buses_def
          split: prod.splits sum.splits option.splits dest!: events_fw_conf_init)
  qed
qed

theorem mips_loongson3_init_ram_check_witness:
  "m_ram_size (example_machine\<lparr>m_ram_size := 0x8000000\<rparr>) < 0x10000000
   \<and> mips_loongson3_init (example_host OpenFails 0) (example_machine\<lparr>m_ram_size := 0x8000000\<rparr>)
       initial_state
     = (Inl (Exit ''Loongson-3 need at least 256MB memory''), initial_state)"
  using mips_loongson3_init_ram_check [of "example_machine\<lparr>m_ram_size := 0x8000000\<rparr>"
      "example_host OpenFails 0" initial_state]
  by (simp add: example_machine_def)


end
